theory Spec2Isabelle
  imports Main "HOL-Library.AList"
begin

section \<open>Values of the policy API\<close>

text \<open>
  \<open>kes.Identity\<close> is a Go string type; \<open>kes.IdentityUnknown\<close> is the empty identity and
  \<open>IsUnknown\<close> compares with it. Identities are compared with \<open>==\<close>, that is, by value.
\<close>

type_synonym identity = string

definition IdentityUnknown :: identity where
  "IdentityUnknown = []"

definition IsUnknown :: "identity \<Rightarrow> bool" where
  "IsUnknown i \<longleftrightarrow> i = IdentityUnknown"

text \<open>
  A Go \<open>error\<close> value: \<open>kes.NewError(status, message)\<close> carries an HTTP status, every other
  error only its message. \<open>nil\<close> is \<open>None\<close> of \<open>error option\<close>.
\<close>

datatype error = Error nat string | Failure string

fun ErrorString :: "error \<Rightarrow> string" where
  "ErrorString (Error code msg) = msg"
| "ErrorString (Failure msg) = msg"

abbreviation StatusOK :: nat where "StatusOK \<equiv> 200"
abbreviation StatusBadRequest :: nat where "StatusBadRequest \<equiv> 400"
abbreviation StatusForbidden :: nat where "StatusForbidden \<equiv> 403"
abbreviation StatusNotFound :: nat where "StatusNotFound \<equiv> 404"

text \<open>\<open>time.Time\<close> as an instant; the zero \<open>time.Time{}\<close> is \<open>0\<close>.\<close>

type_synonym time = int

text \<open>\<open>auth.Policy\<close>, with the four fields the handlers read and write.\<close>

record policy =
  Allow :: "string list"
  Deny :: "string list"
  CreatedAt :: time
  CreatedBy :: identity

text \<open>
  The \<open>Response\<close> structs the handlers encode, one constructor for each handler's struct:
  describe \<open>{CreatedAt, CreatedBy}\<close>, read \<open>{Allow, Deny, CreatedAt, CreatedBy}\<close> and
  list \<open>{Name, CreatedAt, CreatedBy, Err}\<close>.
\<close>

datatype response =
    DescribeResponse time identity
  | ReadResponse "string list" "string list" time identity
  | ListResponse string time identity string

text \<open>\<open>Response{Err: err.Error()}\<close>: every other field keeps its zero value.\<close>

definition ErrResponse :: "error \<Rightarrow> response" where
  "ErrResponse err = ListResponse [] 0 [] (ErrorString err)"

section \<open>The response writer\<close>

text \<open>
  \<open>http.ResponseWriter\<close>: the content type of the header map, the status line once it has
  been written, and the values encoded to the body so far, one per line
  (\<open>json.Encoder.Encode\<close> ends each value with a newline). \<open>Faults\<close> scripts the
  connection: the outcome of each coming \<open>Encode\<close>, \<open>None\<close> or no entry for a value
  that goes through.
\<close>

record ResponseWriter =
  ContentType :: "string option"
  Status :: "nat option"
  Body :: "response list"
  Faults :: "error option list"

definition HeaderSetContentType :: "string \<Rightarrow> ResponseWriter \<Rightarrow> ResponseWriter" where
  "HeaderSetContentType ct w = w\<lparr>ContentType := Some ct\<rparr>"

text \<open>\<open>WriteHeader\<close>: the first status written is the one sent.\<close>

definition WriteHeader :: "nat \<Rightarrow> ResponseWriter \<Rightarrow> ResponseWriter" where
  "WriteHeader code w = (if Status w = None then w\<lparr>Status := Some code\<rparr> else w)"

text \<open>
  \<open>json.NewEncoder(w).Encode(v)\<close>: a write to \<open>w\<close>, which sends the status line with
  \<open>StatusOK\<close> when none has been written, then the value, unless the connection fails.
\<close>

definition Encode :: "response \<Rightarrow> ResponseWriter \<Rightarrow> error option \<times> ResponseWriter" where
  "Encode v w =
     (let w1 = WriteHeader StatusOK w in
      case Faults w1 of
        [] \<Rightarrow> (None, w1\<lparr>Body := Body w1 @ [v]\<rparr>)
      | None # fs \<Rightarrow> (None, w1\<lparr>Body := Body w1 @ [v], Faults := fs\<rparr>)
      | Some err # fs \<Rightarrow> (Some err, w1\<lparr>Faults := fs\<rparr>))"

section \<open>Vault, enclaves and the state a handler runs in\<close>

text \<open>
  \<open>*sys.Enclave\<close> is a pointer: the vault holds the enclave objects, addressed by
  reference, and the outcome of \<open>Vault.Admin\<close>. The state of an enclave is of any type
  \<open>'e\<close>; its methods are collaborators (below).
\<close>

type_synonym ref = nat

record 'e vault =
  Admin :: "error + identity"
  Enclaves :: "ref \<Rightarrow> 'e"

datatype locker = VaultRLocker | EnclaveLocker ref | EnclaveRLocker ref

datatype event = Lock locker | Unlock locker | Call string

text \<open>
  What a handler reads and changes: the vault behind \<open>config.Vault\<close>, the clock read by
  \<open>time.Now\<close>, the response writer \<open>w\<close>, and the sequence of lock operations and
  collaborator calls made so far.
\<close>

record 'e world =
  Vault :: "'e vault"
  Clock :: time
  W :: ResponseWriter
  Trace :: "event list"

definition emit :: "event \<Rightarrow> 'e world \<Rightarrow> 'e world" where
  "emit ev s = s\<lparr>Trace := Trace s @ [ev]\<rparr>"

text \<open>\<open>auth.PolicyIterator\<close>: the names \<open>Next\<close>/\<open>Name\<close> yield, then what \<open>Close\<close> returns.\<close>

record iterator =
  Names :: "string list"
  CloseErr :: "error option"

section \<open>Collaborators\<close>

text \<open>
  The functions the handlers call that are defined outside \<open>policy.go\<close>, taken as
  parameters: request parsing (\<open>nameFromRequest\<close>, \<open>patternFromRequest\<close>,
  \<open>enclaveFromRequest\<close>, \<open>verifyName\<close>, \<open>auth.Identify\<close>, the length of the body and the
  outcome of decoding it into each handler's \<open>Request\<close> struct), \<open>path.Match\<close>, and the methods
  of \<open>sys.Enclave\<close>. A method that can change the enclave returns the enclave it leaves.
\<close>

record ('r, 'e) collaborators =
  nameFromRequest :: "'r \<Rightarrow> string \<Rightarrow> error + string"
  patternFromRequest :: "'r \<Rightarrow> string \<Rightarrow> error + string"
  enclaveFromRequest :: "'e vault \<Rightarrow> 'r \<Rightarrow> error + ref"
  verifyName :: "string \<Rightarrow> error option"
  Identify :: "'r \<Rightarrow> identity"
  ContentLength :: "'r \<Rightarrow> int"
  DecodeAssign :: "'r \<Rightarrow> error + identity"
  DecodeWrite :: "'r \<Rightarrow> error + string list \<times> string list"
  Match :: "string \<Rightarrow> string \<Rightarrow> bool \<times> error option"
  VerifyRequest :: "'e \<Rightarrow> 'r \<Rightarrow> error option"
  AssignPolicy :: "'e \<Rightarrow> string \<Rightarrow> identity \<Rightarrow> error option \<times> 'e"
  GetPolicy :: "'e \<Rightarrow> string \<Rightarrow> error + policy"
  SetPolicy :: "'e \<Rightarrow> string \<Rightarrow> policy \<Rightarrow> error option \<times> 'e"
  DeletePolicy :: "'e \<Rightarrow> string \<Rightarrow> error option \<times> 'e"
  ListPolicies :: "'e \<Rightarrow> error + iterator"

text \<open>Method calls on an enclave reference, each recorded in the trace.\<close>

definition enclave_VerifyRequest ::
  "('r, 'e) collaborators \<Rightarrow> ref \<Rightarrow> 'r \<Rightarrow> 'e world \<Rightarrow> error option \<times> 'e world" where
  "enclave_VerifyRequest D enclave r s =
     (VerifyRequest D (Enclaves (Vault s) enclave) r, emit (Call ''VerifyRequest'') s)"

definition store :: "ref \<Rightarrow> 'e \<Rightarrow> 'e world \<Rightarrow> 'e world" where
  "store enclave e s = s\<lparr>Vault := (Vault s)\<lparr>Enclaves := (Enclaves (Vault s))(enclave := e)\<rparr>\<rparr>"

definition enclave_AssignPolicy ::
  "('r, 'e) collaborators \<Rightarrow> ref \<Rightarrow> string \<Rightarrow> identity \<Rightarrow> 'e world \<Rightarrow> error option \<times> 'e world" where
  "enclave_AssignPolicy D enclave name identity s =
     (let (err, e) = AssignPolicy D (Enclaves (Vault s) enclave) name identity
      in (err, store enclave e (emit (Call ''AssignPolicy'') s)))"

definition enclave_GetPolicy ::
  "('r, 'e) collaborators \<Rightarrow> ref \<Rightarrow> string \<Rightarrow> 'e world \<Rightarrow> (error + policy) \<times> 'e world" where
  "enclave_GetPolicy D enclave name s =
     (GetPolicy D (Enclaves (Vault s) enclave) name, emit (Call ''GetPolicy'') s)"

definition enclave_SetPolicy ::
  "('r, 'e) collaborators \<Rightarrow> ref \<Rightarrow> string \<Rightarrow> policy \<Rightarrow> 'e world \<Rightarrow> error option \<times> 'e world" where
  "enclave_SetPolicy D enclave name p s =
     (let (err, e) = SetPolicy D (Enclaves (Vault s) enclave) name p
      in (err, store enclave e (emit (Call ''SetPolicy'') s)))"

definition enclave_DeletePolicy ::
  "('r, 'e) collaborators \<Rightarrow> ref \<Rightarrow> string \<Rightarrow> 'e world \<Rightarrow> error option \<times> 'e world" where
  "enclave_DeletePolicy D enclave name s =
     (let (err, e) = DeletePolicy D (Enclaves (Vault s) enclave) name
      in (err, store enclave e (emit (Call ''DeletePolicy'') s)))"

definition enclave_ListPolicies ::
  "('r, 'e) collaborators \<Rightarrow> ref \<Rightarrow> 'e world \<Rightarrow> (error + iterator) \<times> 'e world" where
  "enclave_ListPolicies D enclave s =
     (ListPolicies D (Enclaves (Vault s) enclave), emit (Call ''ListPolicies'') s)"

definition iterator_Close :: "iterator \<Rightarrow> 'e world \<Rightarrow> error option \<times> 'e world" where
  "iterator_Close it s = (CloseErr it, emit (Call ''Close'') s)"

definition Vault_Admin :: "'e world \<Rightarrow> (error + identity) \<times> 'e world" where
  "Vault_Admin s = (Admin (Vault s), emit (Call ''Admin'') s)"

text \<open>
  Modelled from the spec: \<open>Sync\<close> and \<open>VSync\<close> are defined outside \<open>policy.go\<close>. The spec has
  them run a closure under an acquired lock, return what the closure returns (an error for
  \<open>Sync\<close>, a value and an error for \<open>VSync\<close>), and release the lock exactly once whatever the
  outcome.
\<close>

definition Sync :: "locker \<Rightarrow> ('e world \<Rightarrow> 'a \<times> 'e world) \<Rightarrow> 'e world \<Rightarrow> 'a \<times> 'e world" where
  "Sync l f s = (let (res, s') = f (emit (Lock l) s) in (res, emit (Unlock l) s'))"

definition VSync :: "locker \<Rightarrow> ('e world \<Rightarrow> 'a \<times> 'e world) \<Rightarrow> 'e world \<Rightarrow> 'a \<times> 'e world" where
  "VSync l f s = (let (res, s') = f (emit (Lock l) s) in (res, emit (Unlock l) s'))"

section \<open>assignPolicy\<close>

definition assign_APIPath :: string where
  "assign_APIPath = ''/v1/policy/assign/''"

text \<open>The closure run under the enclave lock (lines 42 to 66).\<close>

definition assign_locked ::
  "('r, 'e) collaborators \<Rightarrow> 'r \<Rightarrow> string \<Rightarrow> ref \<Rightarrow> 'e world \<Rightarrow> error option \<times> 'e world" where
  "assign_locked D r name enclave s =
     (case enclave_VerifyRequest D enclave r s of
        (Some err, s1) \<Rightarrow> (Some err, s1)
      | (None, s1) \<Rightarrow>
          (case DecodeAssign D r of
             Inl err \<Rightarrow> (Some err, s1)
           | Inr req_Identity \<Rightarrow>
               (case verifyName D req_Identity of
                  Some err \<Rightarrow> (Some err, s1)
                | None \<Rightarrow>
                    if IsUnknown req_Identity
                    then (Some (Error StatusBadRequest ''identity is unknown''), s1)
                    else if Identify D r = req_Identity
                    then (Some (Error StatusForbidden ''identity cannot assign policy to itself''), s1)
                    else
                      (case Vault_Admin s1 of
                         (Inl err, s2) \<Rightarrow> (Some err, s2)
                       | (Inr admin, s2) \<Rightarrow>
                           if admin = req_Identity
                           then (Some (Error StatusBadRequest ''cannot assign policy to system admin''), s2)
                           else enclave_AssignPolicy D enclave name req_Identity s2))))"

definition assignPolicy ::
  "('r, 'e) collaborators \<Rightarrow> 'r \<Rightarrow> 'e world \<Rightarrow> error option \<times> 'e world" where
  "assignPolicy D r s =
     (case nameFromRequest D r assign_APIPath of
        Inl err \<Rightarrow> (Some err, s)
      | Inr name \<Rightarrow>
          (case Sync VaultRLocker
                  (\<lambda>s. case enclaveFromRequest D (Vault s) r of
                          Inl err \<Rightarrow> (Some err, s)
                        | Inr enclave \<Rightarrow>
                            Sync (EnclaveLocker enclave) (assign_locked D r name enclave) s) s of
             (Some err, s') \<Rightarrow> (Some err, s')
           | (None, s') \<Rightarrow> (None, s'\<lparr>W := WriteHeader StatusOK (W s')\<rparr>)))"

section \<open>describePolicy and readPolicy\<close>

text \<open>
  A Go result \<open>(value, error)\<close> whose value is read only when the error is \<open>nil\<close> is a sum;
  the list handler reads both parts of \<open>(hasWritten, err)\<close>, which stays a pair.
\<close>

definition describe_APIPath :: string where
  "describe_APIPath = ''/v1/policy/describe/''"

definition lookup_locked ::
  "('r, 'e) collaborators \<Rightarrow> 'r \<Rightarrow> string \<Rightarrow> ref \<Rightarrow> 'e world \<Rightarrow> (error + policy) \<times> 'e world" where
  "lookup_locked D r name enclave s =
     (case enclave_VerifyRequest D enclave r s of
        (Some err, s1) \<Rightarrow> (Inl err, s1)
      | (None, s1) \<Rightarrow> enclave_GetPolicy D enclave name s1)"

definition lookup_synced ::
  "('r, 'e) collaborators \<Rightarrow> 'r \<Rightarrow> string \<Rightarrow> 'e world \<Rightarrow> (error + policy) \<times> 'e world" where
  "lookup_synced D r name s =
     VSync VaultRLocker
       (\<lambda>s. case enclaveFromRequest D (Vault s) r of
               Inl err \<Rightarrow> (Inl err, s)
             | Inr enclave \<Rightarrow>
                 VSync (EnclaveRLocker enclave) (lookup_locked D r name enclave) s) s"

definition describePolicy ::
  "('r, 'e) collaborators \<Rightarrow> 'r \<Rightarrow> 'e world \<Rightarrow> error option \<times> 'e world" where
  "describePolicy D r s =
     (case nameFromRequest D r describe_APIPath of
        Inl err \<Rightarrow> (Some err, s)
      | Inr name \<Rightarrow>
          (case lookup_synced D r name s of
             (Inl err, s') \<Rightarrow> (Some err, s')
           | (Inr policy, s') \<Rightarrow>
               (let w1 = HeaderSetContentType ''application/json'' (W s');
                    w2 = WriteHeader StatusOK w1;
                    (_, w3) = Encode (DescribeResponse (CreatedAt policy) (CreatedBy policy)) w2
                in (None, s'\<lparr>W := w3\<rparr>))))"

definition read_APIPath :: string where
  "read_APIPath = ''/v1/policy/read/''"

definition readPolicy ::
  "('r, 'e) collaborators \<Rightarrow> 'r \<Rightarrow> 'e world \<Rightarrow> error option \<times> 'e world" where
  "readPolicy D r s =
     (case nameFromRequest D r read_APIPath of
        Inl err \<Rightarrow> (Some err, s)
      | Inr name \<Rightarrow>
          (case lookup_synced D r name s of
             (Inl err, s') \<Rightarrow> (Some err, s')
           | (Inr policy, s') \<Rightarrow>
               (let w1 = HeaderSetContentType ''application/json'' (W s');
                    w2 = WriteHeader StatusOK w1;
                    (_, w3) = Encode (ReadResponse (Allow policy) (Deny policy)
                                        (CreatedAt policy) (CreatedBy policy)) w2
                in (None, s'\<lparr>W := w3\<rparr>))))"

section \<open>writePolicy and deletePolicy\<close>

definition write_APIPath :: string where
  "write_APIPath = ''/v1/policy/write/''"

definition write_locked ::
  "('r, 'e) collaborators \<Rightarrow> 'r \<Rightarrow> string \<Rightarrow> ref \<Rightarrow> 'e world \<Rightarrow> error option \<times> 'e world" where
  "write_locked D r name enclave s =
     (case enclave_VerifyRequest D enclave r s of
        (Some err, s1) \<Rightarrow> (Some err, s1)
      | (None, s1) \<Rightarrow>
          (case DecodeWrite D r of
             Inl err \<Rightarrow> (Some err, s1)
           | Inr (req_Allow, req_Deny) \<Rightarrow>
               enclave_SetPolicy D enclave name
                 \<lparr>Allow = req_Allow, Deny = req_Deny,
                  CreatedAt = Clock s1, CreatedBy = Identify D r\<rparr> s1))"

definition writePolicy ::
  "('r, 'e) collaborators \<Rightarrow> 'r \<Rightarrow> 'e world \<Rightarrow> error option \<times> 'e world" where
  "writePolicy D r s =
     (case nameFromRequest D r write_APIPath of
        Inl err \<Rightarrow> (Some err, s)
      | Inr name \<Rightarrow>
          (case Sync VaultRLocker
                  (\<lambda>s. case enclaveFromRequest D (Vault s) r of
                          Inl err \<Rightarrow> (Some err, s)
                        | Inr enclave \<Rightarrow>
                            Sync (EnclaveLocker enclave) (write_locked D r name enclave) s) s of
             (Some err, s') \<Rightarrow> (Some err, s')
           | (None, s') \<Rightarrow> (None, s'\<lparr>W := WriteHeader StatusOK (W s')\<rparr>)))"

definition delete_APIPath :: string where
  "delete_APIPath = ''/v1/policy/delete/''"

definition delete_locked ::
  "('r, 'e) collaborators \<Rightarrow> 'r \<Rightarrow> string \<Rightarrow> ref \<Rightarrow> 'e world \<Rightarrow> error option \<times> 'e world" where
  "delete_locked D r name enclave s =
     (case enclave_VerifyRequest D enclave r s of
        (Some err, s1) \<Rightarrow> (Some err, s1)
      | (None, s1) \<Rightarrow> enclave_DeletePolicy D enclave name s1)"

definition deletePolicy ::
  "('r, 'e) collaborators \<Rightarrow> 'r \<Rightarrow> 'e world \<Rightarrow> error option \<times> 'e world" where
  "deletePolicy D r s =
     (case nameFromRequest D r delete_APIPath of
        Inl err \<Rightarrow> (Some err, s)
      | Inr name \<Rightarrow>
          (case Sync VaultRLocker
                  (\<lambda>s. case enclaveFromRequest D (Vault s) r of
                          Inl err \<Rightarrow> (Some err, s)
                        | Inr enclave \<Rightarrow>
                            Sync (EnclaveLocker enclave) (delete_locked D r name enclave) s) s of
             (Some err, s') \<Rightarrow> (Some err, s')
           | (None, s') \<Rightarrow> (None, s'\<lparr>W := WriteHeader StatusOK (W s')\<rparr>)))"

section \<open>listPolicy\<close>

definition list_APIPath :: string where
  "list_APIPath = ''/v1/policy/list/''"

definition ndjson :: string where
  "ndjson = ''application/x-ndjson''"

text \<open>
  The loop of lines 436 to 458 over the names the iterator yields. \<open>Inl (hasWritten, err)\<close>
  is a \<open>return hasWritten, err\<close> from inside the loop, \<open>Inr hasWritten\<close> the loop running to
  its end. The error of \<open>path.Match\<close> is dropped (\<open>ok, _ :=\<close>).
\<close>

fun list_loop ::
  "('r, 'e) collaborators \<Rightarrow> ref \<Rightarrow> string \<Rightarrow> string list \<Rightarrow> bool \<Rightarrow> 'e world
     \<Rightarrow> (bool \<times> error + bool) \<times> 'e world" where
  "list_loop D enclave pattern [] hasWritten s = (Inr hasWritten, s)"
| "list_loop D enclave pattern (name # names) hasWritten s =
     (let (ok, _) = Match D pattern name in
      if \<not> ok then list_loop D enclave pattern names hasWritten s
      else
        (let (hasWritten1, s1) =
               (if \<not> hasWritten
                then (True, s\<lparr>W := WriteHeader StatusOK (HeaderSetContentType ndjson (W s))\<rparr>)
                else (hasWritten, s))
         in case enclave_GetPolicy D enclave name s1 of
              (Inl err, s2) \<Rightarrow> (Inl (hasWritten1, err), s2)
            | (Inr policy, s2) \<Rightarrow>
                (case Encode (ListResponse name (CreatedAt policy) (CreatedBy policy) []) (W s2) of
                   (Some err, w) \<Rightarrow> (Inl (hasWritten1, err), s2\<lparr>W := w\<rparr>)
                 | (None, w) \<Rightarrow> list_loop D enclave pattern names hasWritten1 (s2\<lparr>W := w\<rparr>))))"

text \<open>
  The closure run under the enclave read lock (lines 425 to 459). The deferred
  \<open>iterator.Close()\<close> runs when the closure returns and its result is dropped.
\<close>

definition list_locked ::
  "('r, 'e) collaborators \<Rightarrow> 'r \<Rightarrow> string \<Rightarrow> ref \<Rightarrow> 'e world
     \<Rightarrow> (bool \<times> error option) \<times> 'e world" where
  "list_locked D r pattern enclave s =
     (case enclave_VerifyRequest D enclave r s of
        (Some err, s1) \<Rightarrow> ((False, Some err), s1)
      | (None, s1) \<Rightarrow>
          (case enclave_ListPolicies D enclave s1 of
             (Inl err, s2) \<Rightarrow> ((False, Some err), s2)
           | (Inr iterator, s2) \<Rightarrow>
               (let (res, s4) =
                      (case list_loop D enclave pattern (Names iterator) False s2 of
                         (Inl (hasWritten, err), s3) \<Rightarrow> ((hasWritten, Some err), s3)
                       | (Inr hasWritten, s3) \<Rightarrow>
                           (let (err, s4) = iterator_Close iterator s3
                            in ((hasWritten, err), s4)))
                in (res, snd (iterator_Close iterator s4)))))"

definition listPolicy ::
  "('r, 'e) collaborators \<Rightarrow> 'r \<Rightarrow> 'e world \<Rightarrow> error option \<times> 'e world" where
  "listPolicy D r s =
     (case patternFromRequest D r list_APIPath of
        Inl err \<Rightarrow> (Some err, s)
      | Inr pattern \<Rightarrow>
          (case VSync VaultRLocker
                  (\<lambda>s. case enclaveFromRequest D (Vault s) r of
                          Inl err \<Rightarrow> ((False, Some err), s)
                        | Inr enclave \<Rightarrow>
                            VSync (EnclaveRLocker enclave) (list_locked D r pattern enclave) s) s of
             ((hasWritten, Some err), s') \<Rightarrow>
               if hasWritten
               then (None, s'\<lparr>W := snd (Encode (ErrResponse err) (W s'))\<rparr>)
               else (Some err, s')
           | ((hasWritten, None), s') \<Rightarrow>
               if \<not> hasWritten
               then (None, s'\<lparr>W := WriteHeader StatusOK (W s')\<rparr>)
               else (None, s')))"

section \<open>The edge handlers\<close>

text \<open>
  \<open>api.Config\<close>, of which the edge handlers read \<open>Timeout\<close>, and \<open>EdgeRouterConfig\<close>:
  the per-path \<open>APIConfig\<close> map, \<open>auth.VerifyRequest\<close> over the configured policies and
  identities, and \<open>Get\<close> and \<open>List\<close> of \<open>config.Policies\<close>. The edge handlers take no lock
  and change nothing but the response.
\<close>

record Config =
  Config_Timeout :: int

record 'r EdgeRouterConfig =
  APIConfig :: "string \<rightharpoonup> Config"
  auth_VerifyRequest :: "'r \<Rightarrow> error option"
  Policies_Get :: "string \<Rightarrow> error + policy"
  Policies_List :: "error + iterator"

definition edgeDescribePolicy ::
  "('r, 'e) collaborators \<Rightarrow> 'r EdgeRouterConfig \<Rightarrow> 'r \<Rightarrow> ResponseWriter
     \<Rightarrow> error option \<times> ResponseWriter" where
  "edgeDescribePolicy D config r w =
     (case nameFromRequest D r describe_APIPath of
        Inl err \<Rightarrow> (Some err, w)
      | Inr name \<Rightarrow>
          (case auth_VerifyRequest config r of
             Some err \<Rightarrow> (Some err, w)
           | None \<Rightarrow>
               (case Policies_Get config name of
                  Inl err \<Rightarrow> (Some err, w)
                | Inr policy \<Rightarrow>
                    (let w1 = HeaderSetContentType ''application/json'' w;
                         w2 = WriteHeader StatusOK w1;
                         (_, w3) = Encode (DescribeResponse (CreatedAt policy) (CreatedBy policy)) w2
                     in (None, w3)))))"

definition edgeReadPolicy ::
  "('r, 'e) collaborators \<Rightarrow> 'r EdgeRouterConfig \<Rightarrow> 'r \<Rightarrow> ResponseWriter
     \<Rightarrow> error option \<times> ResponseWriter" where
  "edgeReadPolicy D config r w =
     (case nameFromRequest D r read_APIPath of
        Inl err \<Rightarrow> (Some err, w)
      | Inr name \<Rightarrow>
          (case auth_VerifyRequest config r of
             Some err \<Rightarrow> (Some err, w)
           | None \<Rightarrow>
               (case Policies_Get config name of
                  Inl err \<Rightarrow> (Some err, w)
                | Inr policy \<Rightarrow>
                    (let w1 = HeaderSetContentType ''application/json'' w;
                         w2 = WriteHeader StatusOK w1;
                         (_, w3) = Encode (ReadResponse (Allow policy) (Deny policy)
                                             (CreatedAt policy) (CreatedBy policy)) w2
                     in (None, w3)))))"

text \<open>
  The loop of lines 523 to 544: \<open>None\<close> is a \<open>return nil\<close> from inside the loop,
  \<open>Some hasWritten\<close> the loop running to its end.
\<close>

fun edge_list_loop ::
  "('r, 'e) collaborators \<Rightarrow> 'r EdgeRouterConfig \<Rightarrow> string \<Rightarrow> string list \<Rightarrow> bool
     \<Rightarrow> ResponseWriter \<Rightarrow> bool option \<times> ResponseWriter" where
  "edge_list_loop D config pattern [] hasWritten w = (Some hasWritten, w)"
| "edge_list_loop D config pattern (name # names) hasWritten w =
     (let (ok, _) = Match D pattern name in
      if \<not> ok then edge_list_loop D config pattern names hasWritten w
      else
        (let w1 = (if \<not> hasWritten then HeaderSetContentType ndjson w else w);
             hasWritten1 = True
         in case Policies_Get config name of
              Inl err \<Rightarrow> (None, snd (Encode (ErrResponse err) w1))
            | Inr policy \<Rightarrow>
                (case Encode (ListResponse name (CreatedAt policy) (CreatedBy policy) []) w1 of
                   (Some err, w2) \<Rightarrow> (None, w2)
                 | (None, w2) \<Rightarrow> edge_list_loop D config pattern names hasWritten1 w2)))"

definition edgeListPolicy ::
  "('r, 'e) collaborators \<Rightarrow> 'r EdgeRouterConfig \<Rightarrow> 'r \<Rightarrow> ResponseWriter
     \<Rightarrow> error option \<times> ResponseWriter" where
  "edgeListPolicy D config r w =
     (case patternFromRequest D r list_APIPath of
        Inl err \<Rightarrow> (Some err, w)
      | Inr pattern \<Rightarrow>
          (case auth_VerifyRequest config r of
             Some err \<Rightarrow> (Some err, w)
           | None \<Rightarrow>
               (case Policies_List config of
                  Inl err \<Rightarrow> (Some err, w)
                | Inr iterator \<Rightarrow>
                    (case edge_list_loop D config pattern (Names iterator) False
                            (HeaderSetContentType ndjson w) of
                       (None, w1) \<Rightarrow> (None, w1)
                     | (Some hasWritten, w1) \<Rightarrow>
                         (case CloseErr iterator of
                            Some err \<Rightarrow>
                              if hasWritten
                              then (None, snd (Encode (ErrResponse err) w1))
                              else (Some err, w1)
                          | None \<Rightarrow>
                              if \<not> hasWritten
                              then (None, WriteHeader StatusOK (HeaderSetContentType ndjson w1))
                              else (None, w1))))))"

section \<open>The API descriptions\<close>

text \<open>
  The \<open>API\<close> value each constructor returns, without \<open>Handler\<close> (the handler above, wrapped
  by the metrics and audit collaborators). \<open>Timeout\<close> is a \<open>time.Duration\<close>, a number of
  nanoseconds; \<open>MaxBody\<close> a number of bytes (\<open>mem.KiB\<close> is \<open>2^10\<close> and \<open>mem.MiB\<close> is \<open>2^20\<close>).
\<close>

record API =
  Method :: string
  Path :: string
  MaxBody :: int
  Timeout :: int
  Verify :: bool

definition Second :: int where
  "Second = 1000000000"

definition KiB :: int where
  "KiB = 1024"

definition MiB :: int where
  "MiB = 1048576"

definition assignPolicy_API :: API where
  "assignPolicy_API =
     \<lparr>Method = ''POST'', Path = assign_APIPath, MaxBody = 1 * KiB,
      Timeout = 15 * Second, Verify = True\<rparr>"

definition describePolicy_API :: API where
  "describePolicy_API =
     \<lparr>Method = ''GET'', Path = describe_APIPath, MaxBody = 0,
      Timeout = 15 * Second, Verify = True\<rparr>"

definition readPolicy_API :: API where
  "readPolicy_API =
     \<lparr>Method = ''GET'', Path = read_APIPath, MaxBody = 0,
      Timeout = 15 * Second, Verify = True\<rparr>"

definition writePolicy_API :: API where
  "writePolicy_API =
     \<lparr>Method = ''POST'', Path = write_APIPath, MaxBody = 1 * MiB,
      Timeout = 15 * Second, Verify = True\<rparr>"

definition deletePolicy_API :: API where
  "deletePolicy_API =
     \<lparr>Method = ''DELETE'', Path = delete_APIPath, MaxBody = 0,
      Timeout = 15 * Second, Verify = True\<rparr>"

definition listPolicy_API :: API where
  "listPolicy_API =
     \<lparr>Method = ''GET'', Path = list_APIPath, MaxBody = 0,
      Timeout = 15 * Second, Verify = True\<rparr>"

text \<open>
  The edge constructors start from \<open>15 * time.Second\<close> and take the timeout configured for
  their path when there is one and it is positive (lines 147 to 151, 254 to 258 and
  493 to 497).
\<close>

definition edge_Timeout :: "'r EdgeRouterConfig \<Rightarrow> string \<Rightarrow> int" where
  "edge_Timeout config APIPath =
     (case APIConfig config APIPath of
        Some c \<Rightarrow> if Config_Timeout c > 0 then Config_Timeout c else 15 * Second
      | None \<Rightarrow> 15 * Second)"

definition edgeDescribePolicy_API :: "'r EdgeRouterConfig \<Rightarrow> API" where
  "edgeDescribePolicy_API config =
     \<lparr>Method = ''GET'', Path = describe_APIPath, MaxBody = 0,
      Timeout = edge_Timeout config describe_APIPath, Verify = True\<rparr>"

definition edgeReadPolicy_API :: "'r EdgeRouterConfig \<Rightarrow> API" where
  "edgeReadPolicy_API config =
     \<lparr>Method = ''GET'', Path = read_APIPath, MaxBody = 0,
      Timeout = edge_Timeout config read_APIPath, Verify = True\<rparr>"

definition edgeListPolicy_API :: "'r EdgeRouterConfig \<Rightarrow> API" where
  "edgeListPolicy_API config =
     \<lparr>Method = ''GET'', Path = list_APIPath, MaxBody = 0,
      Timeout = edge_Timeout config list_APIPath, Verify = True\<rparr>"

text \<open>
  Modelled from the spec: the dispatcher that applies \<open>MaxBody\<close> to a request is outside
  \<open>policy.go\<close>. The spec has a request whose body exceeds its operation's maximum rejected
  without the handler body being invoked at all, so before any decoding.
\<close>

definition serve ::
  "('r, 'e) collaborators \<Rightarrow> API \<Rightarrow> ('r \<Rightarrow> 'e world \<Rightarrow> error option \<times> 'e world)
     \<Rightarrow> 'r \<Rightarrow> 'e world \<Rightarrow> error option \<times> 'e world" where
  "serve D api handler r s =
     (if MaxBody api < ContentLength D r
      then (Some (Failure ''request body too large''), s)
      else handler r s)"

section \<open>An in-memory instance of the collaborators\<close>

text \<open>
  Requests as the collaborators below read them: the URL path, the enclave the request
  resolves to (if any), the identity of the client certificate, the body and its length.
\<close>

datatype payload =
    NoBody
  | AssignRequest identity
  | WriteRequest "string list" "string list"
  | Malformed

record request =
  URLPath :: string
  Target :: "ref option"
  Peer :: identity
  Payload :: payload
  Length :: int

text \<open>
  Modelled from the spec: the enclave type \<open>sys.Enclave\<close> is outside \<open>policy.go\<close>. The spec
  has an enclave own a mapping from policy names to policies (unique names, iterated in the
  order of the backing store) and a mapping from identities to policy names (at most one
  policy for an identity).
\<close>

record enclave =
  Policies :: "(string \<times> policy) list"
  Assignments :: "(identity \<times> string) list"

definition ErrPolicyNotFound :: error where
  "ErrPolicyNotFound = Error StatusNotFound ''policy does not exist''"

text \<open>
  Modelled from the spec: \<open>nameFromRequest\<close>, \<open>patternFromRequest\<close> and \<open>verifyName\<close> are
  outside \<open>policy.go\<close>. The spec takes name and pattern from the trailing path segment after
  the fixed API prefix, fails a malformed name with a validation error, and matches
  everything by default.
\<close>

definition mem_verifyName :: "string \<Rightarrow> error option" where
  "mem_verifyName name =
     (if CHR ''/'' \<in> set name
      then Some (Error StatusBadRequest ''invalid argument: name contains invalid character'')
      else None)"

definition mem_nameFromRequest :: "request \<Rightarrow> string \<Rightarrow> error + string" where
  "mem_nameFromRequest r APIPath =
     (if take (length APIPath) (URLPath r) = APIPath
      then (let name = drop (length APIPath) (URLPath r)
            in case mem_verifyName name of Some err \<Rightarrow> Inl err | None \<Rightarrow> Inr name)
      else Inl (Error StatusBadRequest ''invalid path''))"

definition mem_patternFromRequest :: "request \<Rightarrow> string \<Rightarrow> error + string" where
  "mem_patternFromRequest r APIPath =
     (if take (length APIPath) (URLPath r) = APIPath
      then (let pattern = drop (length APIPath) (URLPath r)
            in if pattern = [] then Inr ''*'' else Inr pattern)
      else Inl (Error StatusBadRequest ''invalid path''))"

text \<open>
  Modelled from the spec: \<open>enclaveFromRequest\<close> is outside \<open>policy.go\<close>. The spec resolves
  the enclave the request addresses, or fails as not found if no enclave matches.
\<close>

definition mem_enclaveFromRequest :: "enclave vault \<Rightarrow> request \<Rightarrow> error + ref" where
  "mem_enclaveFromRequest v r =
     (case Target r of
        None \<Rightarrow> Inl (Error StatusNotFound ''enclave does not exist'')
      | Some enclave \<Rightarrow> Inr enclave)"

text \<open>
  \<open>json.NewDecoder(r.Body).Decode(&req)\<close> into the \<open>Request\<close> struct of the assign and of
  the write handler: a body of the other shape, or none, does not decode.
\<close>

definition mem_DecodeAssign :: "request \<Rightarrow> error + identity" where
  "mem_DecodeAssign r =
     (case Payload r of
        AssignRequest identity \<Rightarrow> Inr identity
      | _ \<Rightarrow> Inl (Failure ''json: cannot decode request body''))"

definition mem_DecodeWrite :: "request \<Rightarrow> error + string list \<times> string list" where
  "mem_DecodeWrite r =
     (case Payload r of
        WriteRequest allow deny \<Rightarrow> Inr (allow, deny)
      | _ \<Rightarrow> Inl (Failure ''json: cannot decode request body''))"

text \<open>
  \<open>path.Match\<close> on three kinds of pattern: \<open>*\<close> matches every name without a slash, the
  malformed pattern \<open>[\<close> gives \<open>(false, ErrBadPattern)\<close> for every name, and every other
  pattern is taken as a literal.
\<close>

definition mem_Match :: "string \<Rightarrow> string \<Rightarrow> bool \<times> error option" where
  "mem_Match pattern name =
     (if pattern = ''*'' then (CHR ''/'' \<notin> set name, None)
      else if pattern = ''['' then (False, Some (Failure ''syntax error in pattern''))
      else (pattern = name, None))"

text \<open>
  Modelled from the spec: the methods of \<open>sys.Enclave\<close> are outside \<open>policy.go\<close>. The spec
  has \<open>VerifyRequest\<close> check the authentication of the request, \<open>AssignPolicy\<close> record the
  policy name for the identity and fail when no policy has that name, \<open>GetPolicy\<close> fail as
  not found for an absent name, \<open>SetPolicy\<close> wholly replace what is stored under the name,
  \<open>DeletePolicy\<close> fail as not found for an absent name, and \<open>ListPolicies\<close> iterate over all
  policy names of the enclave.
\<close>

definition mem_VerifyRequest :: "enclave \<Rightarrow> request \<Rightarrow> error option" where
  "mem_VerifyRequest e r =
     (if IsUnknown (Peer r)
      then Some (Error StatusForbidden ''not authorized: insufficient permissions'')
      else None)"

definition mem_AssignPolicy :: "enclave \<Rightarrow> string \<Rightarrow> identity \<Rightarrow> error option \<times> enclave" where
  "mem_AssignPolicy e name identity =
     (case map_of (Policies e) name of
        None \<Rightarrow> (Some ErrPolicyNotFound, e)
      | Some _ \<Rightarrow> (None, e\<lparr>Assignments := AList.update identity name (Assignments e)\<rparr>))"

definition mem_GetPolicy :: "enclave \<Rightarrow> string \<Rightarrow> error + policy" where
  "mem_GetPolicy e name =
     (case map_of (Policies e) name of
        None \<Rightarrow> Inl ErrPolicyNotFound
      | Some p \<Rightarrow> Inr p)"

definition mem_SetPolicy :: "enclave \<Rightarrow> string \<Rightarrow> policy \<Rightarrow> error option \<times> enclave" where
  "mem_SetPolicy e name p = (None, e\<lparr>Policies := AList.update name p (Policies e)\<rparr>)"

definition mem_DeletePolicy :: "enclave \<Rightarrow> string \<Rightarrow> error option \<times> enclave" where
  "mem_DeletePolicy e name =
     (case map_of (Policies e) name of
        None \<Rightarrow> (Some ErrPolicyNotFound, e)
      | Some _ \<Rightarrow> (None, e\<lparr>Policies := AList.delete name (Policies e)\<rparr>))"

definition mem_ListPolicies :: "enclave \<Rightarrow> error + iterator" where
  "mem_ListPolicies e = Inr \<lparr>Names = map fst (Policies e), CloseErr = None\<rparr>"

definition mem :: "(request, enclave) collaborators" where
  "mem =
     \<lparr>nameFromRequest = mem_nameFromRequest,
      patternFromRequest = mem_patternFromRequest,
      enclaveFromRequest = mem_enclaveFromRequest,
      verifyName = mem_verifyName,
      Identify = Peer,
      ContentLength = Length,
      DecodeAssign = mem_DecodeAssign,
      DecodeWrite = mem_DecodeWrite,
      Match = mem_Match,
      VerifyRequest = mem_VerifyRequest,
      AssignPolicy = mem_AssignPolicy,
      GetPolicy = mem_GetPolicy,
      SetPolicy = mem_SetPolicy,
      DeletePolicy = mem_DeletePolicy,
      ListPolicies = mem_ListPolicies\<rparr>"

text \<open>
  Modelled from the spec: the store behind an enclave is outside \<open>policy.go\<close>. The spec has
  its get and iterate fail with errors of their own; here fetching a name of \<open>unreadable\<close>
  fails, and closing an iteration returns \<open>closeErr\<close>.
\<close>

definition mem_faulty :: "string list \<Rightarrow> error option \<Rightarrow> (request, enclave) collaborators" where
  "mem_faulty unreadable closeErr =
     mem\<lparr>GetPolicy :=
           (\<lambda>e name. if name \<in> set unreadable then Inl (Failure ''store: read failed'')
                      else mem_GetPolicy e name),
         ListPolicies :=
           (\<lambda>e. Inr \<lparr>Names = map fst (Policies e), CloseErr = closeErr\<rparr>)\<rparr>"

text \<open>The edge configuration over the store of an enclave, with no per-path settings.\<close>

definition mem_edge :: "(request, enclave) collaborators \<Rightarrow> enclave \<Rightarrow> request EdgeRouterConfig" where
  "mem_edge D e =
     \<lparr>APIConfig = Map.empty,
      auth_VerifyRequest = VerifyRequest D e,
      Policies_Get = GetPolicy D e,
      Policies_List = ListPolicies D e\<rparr>"

text \<open>A response nothing has been written to, over a connection that does not fail.\<close>

definition NewWriter :: ResponseWriter where
  "NewWriter = \<lparr>ContentType = None, Status = None, Body = [], Faults = []\<rparr>"

text \<open>
  A vault with admin \<open>admin\<close> whose enclaves all start as \<open>e\<close>, at time \<open>now\<close>, before
  anything has been written or locked.
\<close>

definition world0 :: "identity \<Rightarrow> enclave \<Rightarrow> time \<Rightarrow> enclave world" where
  "world0 admin e now =
     \<lparr>Vault = \<lparr>Admin = Inr admin, Enclaves = (\<lambda>_. e)\<rparr>,
      Clock = now, W = NewWriter, Trace = []\<rparr>"

definition policy1 :: policy where
  "policy1 = \<lparr>Allow = [''/v1/key/read/*''], Deny = [], CreatedAt = 7, CreatedBy = ''root''\<rparr>"

definition enclave1 :: enclave where
  "enclave1 =
     \<lparr>Policies = [(''p1'', policy1), (''p2'', policy1)], Assignments = []\<rparr>"

text \<open>Requests to assign the policy \<open>p1\<close> in enclave \<open>0\<close>.\<close>

definition assign_request :: "identity \<Rightarrow> identity \<Rightarrow> request" where
  "assign_request peer target =
     \<lparr>URLPath = ''/v1/policy/assign/p1'', Target = Some 0, Peer = peer,
      Payload = AssignRequest target, Length = 24\<rparr>"

text \<open>Requests to list the policies of enclave \<open>0\<close> that match a pattern.\<close>

definition list_request :: "string \<Rightarrow> request" where
  "list_request pattern =
     \<lparr>URLPath = ''/v1/policy/list/'' @ pattern, Target = Some 0, Peer = ''alice'',
      Payload = NoBody, Length = 0\<rparr>"

text \<open>Requests to describe or read the policy \<open>p1\<close> of enclave \<open>0\<close>.\<close>

definition describe_request :: request where
  "describe_request =
     \<lparr>URLPath = ''/v1/policy/describe/p1'', Target = Some 0, Peer = ''alice'',
      Payload = NoBody, Length = 0\<rparr>"

definition read_request :: request where
  "read_request =
     \<lparr>URLPath = ''/v1/policy/read/p1'', Target = Some 0, Peer = ''alice'',
      Payload = NoBody, Length = 0\<rparr>"

text \<open>Requests to write the policy \<open>p1\<close> of enclave \<open>0\<close>.\<close>

definition write_request :: "identity \<Rightarrow> string list \<Rightarrow> string list \<Rightarrow> request" where
  "write_request peer allow deny =
     \<lparr>URLPath = ''/v1/policy/write/p1'', Target = Some 0, Peer = peer,
      Payload = WriteRequest allow deny, Length = 64\<rparr>"

text \<open>An edge configuration that sets a timeout of 30 seconds for the describe path.\<close>

definition slow_edge :: "request EdgeRouterConfig" where
  "slow_edge =
     (mem_edge mem enclave1)
       \<lparr>APIConfig := [''/v1/policy/describe/'' \<mapsto> \<lparr>Config_Timeout = 30 * Second\<rparr>]\<rparr>"

section \<open>What the properties are stated with\<close>

text \<open>Whether the list handlers take a name: the \<open>ok\<close> of \<open>ok, _ := path.Match(...)\<close>.\<close>

definition matches :: "('r, 'e) collaborators \<Rightarrow> string \<Rightarrow> string \<Rightarrow> bool" where
  "matches D pattern name = fst (Match D pattern name)"

text \<open>
  The line a list handler writes for a matched name: the record of the policy, or the
  error record when fetching the policy fails.
\<close>

definition entry_of :: "string \<Rightarrow> error + policy \<Rightarrow> response" where
  "entry_of name res =
     (case res of
        Inl err \<Rightarrow> ErrResponse err
      | Inr policy \<Rightarrow> ListResponse name (CreatedAt policy) (CreatedBy policy) [])"

definition entry :: "('r, 'e) collaborators \<Rightarrow> 'e \<Rightarrow> string \<Rightarrow> response" where
  "entry D e name = entry_of name (GetPolicy D e name)"

text \<open>Committing to success: lines 442 and 443.\<close>

definition commit :: "ResponseWriter \<Rightarrow> ResponseWriter" where
  "commit w = WriteHeader StatusOK (HeaderSetContentType ndjson w)"

text \<open>
  The response after the lines for the matching names among \<open>names\<close> have gone through:
  untouched when no name matches, otherwise committed (unless it was already) and longer
  by one line for each matching name.
\<close>

definition listed ::
  "('r, 'e) collaborators \<Rightarrow> 'e \<Rightarrow> string \<Rightarrow> string list \<Rightarrow> bool \<Rightarrow> ResponseWriter
     \<Rightarrow> ResponseWriter" where
  "listed D e pattern names hasWritten w =
     (let ms = filter (matches D pattern) names in
      if ms = [] then w
      else (if hasWritten then WriteHeader StatusOK w else commit w)
             \<lparr>Body := Body w @ map (entry D e) ms\<rparr>)"

text \<open>The collaborator calls of a trace, in order.\<close>

fun calls_of :: "event list \<Rightarrow> string list" where
  "calls_of [] = []"
| "calls_of (Call c # t) = c # calls_of t"
| "calls_of (_ # t) = calls_of t"

text \<open>
  A run under both locks: the vault read lock, then the enclave lock \<open>l\<close>, then collaborator
  calls only, then the two locks released in reverse order.
\<close>

definition locked_trace :: "locker \<Rightarrow> string list \<Rightarrow> event list" where
  "locked_trace l calls =
     [Lock VaultRLocker, Lock l] @ map Call calls @ [Unlock l, Unlock VaultRLocker]"

text \<open>
  The lock discipline of a handler, on the events \<open>t\<close> it adds to the trace: nothing when
  the name or pattern of the request is rejected; the vault read lock alone, taken and
  released, when no enclave resolves; otherwise a run under the vault read lock and the
  enclave lock \<open>lk enclave\<close> whose first call is the verification of the request.
\<close>

definition lock_discipline ::
  "error + string \<Rightarrow> error + ref \<Rightarrow> (ref \<Rightarrow> locker) \<Rightarrow> event list \<Rightarrow> bool" where
  "lock_discipline parsed resolved lk t =
     (case parsed of
        Inl _ \<Rightarrow> t = []
      | Inr _ \<Rightarrow>
          (case resolved of
             Inl _ \<Rightarrow> t = [Lock VaultRLocker, Unlock VaultRLocker]
           | Inr enclave \<Rightarrow>
               t = locked_trace (lk enclave) (calls_of t)
               \<and> take 1 (calls_of t) = [''VerifyRequest'']))"


text \<open>The collaborators with a \<open>path.Match\<close> that returns the same \<open>ok\<close> and never an error.\<close>

definition drop_match_errors :: "('r, 'e) collaborators \<Rightarrow> ('r, 'e) collaborators" where
  "drop_match_errors D = D\<lparr>Match := (\<lambda>pattern name. (fst (Match D pattern name), None))\<rparr>"

text \<open>
  What a client gets from a handler: the error the handler returns, which the wrappers
  around the handler turn into an error response, and the response written so far.
\<close>

definition outcome :: "error option \<times> 'e world \<Rightarrow> error option \<times> ResponseWriter" where
  "outcome res = (fst res, W (snd res))"

text \<open>
  A failure surfaced as a normal error response: the handler returns the error and has
  written neither a status nor a line of body.
\<close>

definition surfaced :: "error \<Rightarrow> error option \<times> ResponseWriter \<Rightarrow> ResponseWriter \<Rightarrow> bool" where
  "surfaced err res w \<longleftrightarrow>
     fst res = Some err \<and> Status (snd res) = Status w \<and> Body (snd res) = Body w"

text \<open>
  A failure reported in the body: the handler returns no error, the status is success and
  the body ends with the error record.
\<close>

definition in_body :: "error \<Rightarrow> error option \<times> ResponseWriter \<Rightarrow> ResponseWriter \<Rightarrow> bool" where
  "in_body err res w \<longleftrightarrow>
     fst res = None \<and> Status (snd res) = Some StatusOK
     \<and> Body (snd res) = Body w @ [ErrResponse err]"

text \<open>
  The state in which \<open>listPolicy\<close> enters its loop: both locks taken, the request
  verified, the iterator opened.
\<close>

definition at_loop :: "ref \<Rightarrow> 'e world \<Rightarrow> 'e world" where
  "at_loop enclave s =
     emit (Call ''ListPolicies'') (emit (Call ''VerifyRequest'')
       (emit (Lock (EnclaveRLocker enclave)) (emit (Lock VaultRLocker) s)))"

section \<open>Locks and state: basic facts\<close>

lemmas mem_defs =
  mem_def mem_faulty_def mem_nameFromRequest_def mem_patternFromRequest_def mem_verifyName_def
  mem_enclaveFromRequest_def mem_DecodeAssign_def mem_DecodeWrite_def mem_Match_def
  mem_VerifyRequest_def mem_AssignPolicy_def mem_GetPolicy_def mem_SetPolicy_def
  mem_DeletePolicy_def mem_ListPolicies_def mem_edge_def IsUnknown_def IdentityUnknown_def
  world0_def NewWriter_def enclave1_def policy1_def ErrPolicyNotFound_def


lemma Sync_apply:
  "Sync l f s = (fst (f (emit (Lock l) s)), emit (Unlock l) (snd (f (emit (Lock l) s))))"
  by (simp add: Sync_def split: prod.splits)

lemma VSync_apply:
  "VSync l f s = (fst (f (emit (Lock l) s)), emit (Unlock l) (snd (f (emit (Lock l) s))))"
  by (simp add: VSync_def split: prod.splits)

lemma emit_simps [simp]:
  "Vault (emit ev s) = Vault s"
  "W (emit ev s) = W s"
  "Clock (emit ev s) = Clock s"
  "Trace (emit ev s) = Trace s @ [ev]"
  by (simp_all add: emit_def)

section \<open>Policy assignment: the order of the identity checks\<close>

lemma assign_locked_checks:
  assumes "VerifyRequest D (Enclaves (Vault s) enclave) r = None"
    and "DecodeAssign D r = Inr target"
    and "verifyName D target = None"
  shows "fst (assign_locked D r name enclave s) =
      (if IsUnknown target then Some (Error StatusBadRequest ''identity is unknown'')
       else if Identify D r = target
       then Some (Error StatusForbidden ''identity cannot assign policy to itself'')
       else case Admin (Vault s) of
              Inl err \<Rightarrow> Some err
            | Inr admin \<Rightarrow>
                if admin = target
                then Some (Error StatusBadRequest ''cannot assign policy to system admin'')
                else fst (AssignPolicy D (Enclaves (Vault s) enclave) name target))"
  using assms
  by (auto simp: assign_locked_def enclave_VerifyRequest_def Vault_Admin_def
      enclave_AssignPolicy_def split: option.splits sum.splits prod.splits)

lemma assignPolicy_fails:
  assumes "DecodeAssign D r = Inr target"
    and "target = Identify D r \<or> IsUnknown target \<or> Admin (Vault s) = Inr target"
  shows "\<exists>err. fst (assignPolicy D r s) = Some err"
    and "Vault (snd (assignPolicy D r s)) = Vault s"
    and "W (snd (assignPolicy D r s)) = W s"
  using assms
  by (auto simp: assignPolicy_def Sync_apply assign_locked_def enclave_VerifyRequest_def
      Vault_Admin_def split: sum.splits option.splits)

lemma assignPolicy_checks:
  assumes "nameFromRequest D r assign_APIPath = Inr name"
    and "enclaveFromRequest D (Vault s) r = Inr enclave"
    and "VerifyRequest D (Enclaves (Vault s) enclave) r = None"
    and "DecodeAssign D r = Inr target"
    and "verifyName D target = None"
  shows "fst (assignPolicy D r s) =
      (if IsUnknown target then Some (Error StatusBadRequest ''identity is unknown'')
       else if Identify D r = target
       then Some (Error StatusForbidden ''identity cannot assign policy to itself'')
       else case Admin (Vault s) of
              Inl err \<Rightarrow> Some err
            | Inr admin \<Rightarrow>
                if admin = target
                then Some (Error StatusBadRequest ''cannot assign policy to system admin'')
                else fst (AssignPolicy D (Enclaves (Vault s) enclave) name target))"
    (is "_ = ?rhs")
proof -
  let ?s = "emit (Lock (EnclaveLocker enclave)) (emit (Lock VaultRLocker) s)"
  have "fst (assignPolicy D r s) = fst (assign_locked D r name enclave ?s)"
    using assms(1,2)
    by (auto simp: assignPolicy_def Sync_apply split: sum.splits option.splits prod.splits)
  also have "\<dots> = ?rhs"
    by (subst assign_locked_checks[where target = target])
       (simp_all add: assms(3-5) split: sum.splits)
  finally show ?thesis .
qed

text \<open>
  Claim C1. An assign request whose target identity is the requester's own identity always
  fails and leaves the vault with all its enclaves, and the response, as they were. When
  the request gets as far as the self check (the name is valid, the enclave resolves, the
  request verifies, the target passes \<open>verifyName\<close> and is not the unknown identity), the
  failure is the forbidden self-assignment error whatever the admin identity is: the self
  check comes before the admin check, so the admin assigning to the admin is told
  \<open>identity cannot assign policy to itself\<close>, not \<open>cannot assign policy to system admin\<close>.
\<close>

theorem assign_self_forbidden:
  assumes "DecodeAssign D r = Inr target"
    and "target = Identify D r"
  shows "(\<exists>err. fst (assignPolicy D r s) = Some err)
       \<and> Vault (snd (assignPolicy D r s)) = Vault s
       \<and> W (snd (assignPolicy D r s)) = W s
       \<and> (\<forall>name enclave.
            nameFromRequest D r assign_APIPath = Inr name
            \<and> enclaveFromRequest D (Vault s) r = Inr enclave
            \<and> VerifyRequest D (Enclaves (Vault s) enclave) r = None
            \<and> verifyName D target = None
            \<and> \<not> IsUnknown target
            \<longrightarrow> fst (assignPolicy D r s) =
                  Some (Error StatusForbidden ''identity cannot assign policy to itself'')
              \<and> fst (assignPolicy D r s) \<noteq>
                  Some (Error StatusBadRequest ''cannot assign policy to system admin''))"
proof -
  have "fst (assignPolicy D r s) =
          Some (Error StatusForbidden ''identity cannot assign policy to itself'')"
    if "nameFromRequest D r assign_APIPath = Inr name"
      "enclaveFromRequest D (Vault s) r = Inr enclave"
      "VerifyRequest D (Enclaves (Vault s) enclave) r = None"
      "verifyName D target = None" "\<not> IsUnknown target"
    for name enclave
    using assignPolicy_checks[OF that(1-3) assms(1) that(4)] that(5) assms(2) by simp
  then show ?thesis
    using assignPolicy_fails[OF assms(1), of s] assms(2) by auto
qed

theorem assign_self_forbidden_witness:
  "DecodeAssign mem (assign_request ''admin'' ''admin'') = Inr ''admin''
   \<and> ''admin'' = Identify mem (assign_request ''admin'' ''admin'')
   \<and> Admin (Vault (world0 ''admin'' enclave1 100)) = Inr ''admin''
   \<and> fst (assignPolicy mem (assign_request ''admin'' ''admin'') (world0 ''admin'' enclave1 100)) =
       Some (Error StatusForbidden ''identity cannot assign policy to itself'')
   \<and> Vault (snd (assignPolicy mem (assign_request ''admin'' ''admin'')
                    (world0 ''admin'' enclave1 100))) =
       Vault (world0 ''admin'' enclave1 100)"
proof -
  let ?r = "assign_request ''admin'' ''admin''"
  let ?s = "world0 ''admin'' enclave1 100"
  have h: "DecodeAssign mem ?r = Inr ''admin''" "''admin'' = Identify mem ?r"
    by (simp_all add: mem_def mem_DecodeAssign_def assign_request_def)
  have reach: "nameFromRequest mem ?r assign_APIPath = Inr ''p1''
      \<and> enclaveFromRequest mem (Vault ?s) ?r = Inr 0
      \<and> VerifyRequest mem (Enclaves (Vault ?s) 0) ?r = None
      \<and> verifyName mem ''admin'' = None \<and> \<not> IsUnknown ''admin''"
    by (simp add: mem_def mem_nameFromRequest_def mem_verifyName_def mem_enclaveFromRequest_def
        mem_VerifyRequest_def assign_request_def assign_APIPath_def IsUnknown_def
        IdentityUnknown_def world0_def)
  have a: "Admin (Vault ?s) = Inr ''admin''"
    by (simp add: world0_def)
  show ?thesis
    using assign_self_forbidden[OF h, of ?s] reach h a by blast
qed

text \<open>
  Claim C2, as stated, fails: a target equal to the admin identity does not fail as
  bad-request regardless of the requester. When the admin itself sends the request, the
  self check of line 56 comes first and the failure is forbidden (403), not bad-request.
\<close>

theorem assign_admin_by_admin_counterexample:
  "DecodeAssign mem (assign_request ''admin'' ''admin'') = Inr ''admin''
   \<and> Admin (Vault (world0 ''admin'' enclave1 100)) = Inr ''admin''
   \<and> fst (assignPolicy mem (assign_request ''admin'' ''admin'') (world0 ''admin'' enclave1 100)) =
       Some (Error StatusForbidden ''identity cannot assign policy to itself'')
   \<and> fst (assignPolicy mem (assign_request ''admin'' ''admin'') (world0 ''admin'' enclave1 100)) \<noteq>
       Some (Error StatusBadRequest ''cannot assign policy to system admin'')"
  by (simp add: assignPolicy_def assign_locked_def Sync_apply enclave_VerifyRequest_def
      mem_def mem_DecodeAssign_def mem_nameFromRequest_def mem_verifyName_def
      mem_enclaveFromRequest_def mem_VerifyRequest_def assign_request_def assign_APIPath_def
      IsUnknown_def IdentityUnknown_def world0_def)

text \<open>
  Claim C2, amended. An assign request whose target is the unknown identity or the admin
  identity always fails and leaves the vault with all its enclaves, and the response, as
  they were. When the request gets as far as the identity checks (the name is valid, the
  enclave resolves, the request verifies and the target passes \<open>verifyName\<close>): an unknown
  target fails as bad-request \<open>identity is unknown\<close> whoever the requester and the admin
  are, the unknown check coming before the self and the admin check; and a target equal to
  the admin identity fails as bad-request \<open>cannot assign policy to system admin\<close> for every
  requester other than that identity itself.
\<close>

theorem assign_unknown_or_admin_bad_request:
  assumes "DecodeAssign D r = Inr target"
    and "IsUnknown target \<or> Admin (Vault s) = Inr target"
  shows "(\<exists>err. fst (assignPolicy D r s) = Some err)
       \<and> Vault (snd (assignPolicy D r s)) = Vault s
       \<and> W (snd (assignPolicy D r s)) = W s
       \<and> (\<forall>name enclave.
            nameFromRequest D r assign_APIPath = Inr name
            \<and> enclaveFromRequest D (Vault s) r = Inr enclave
            \<and> VerifyRequest D (Enclaves (Vault s) enclave) r = None
            \<and> verifyName D target = None
            \<longrightarrow> (IsUnknown target \<longrightarrow>
                   fst (assignPolicy D r s) =
                     Some (Error StatusBadRequest ''identity is unknown''))
              \<and> (\<not> IsUnknown target \<and> Identify D r \<noteq> target \<longrightarrow>
                   fst (assignPolicy D r s) =
                     Some (Error StatusBadRequest ''cannot assign policy to system admin'')))"
proof -
  have "(IsUnknown target \<longrightarrow>
           fst (assignPolicy D r s) = Some (Error StatusBadRequest ''identity is unknown''))
      \<and> (\<not> IsUnknown target \<and> Identify D r \<noteq> target \<longrightarrow>
           fst (assignPolicy D r s) =
             Some (Error StatusBadRequest ''cannot assign policy to system admin''))"
    if "nameFromRequest D r assign_APIPath = Inr name"
      "enclaveFromRequest D (Vault s) r = Inr enclave"
      "VerifyRequest D (Enclaves (Vault s) enclave) r = None"
      "verifyName D target = None"
    for name enclave
    using assignPolicy_checks[OF that(1-3) assms(1) that(4)] assms(2) by auto
  then show ?thesis
    using assignPolicy_fails[OF assms(1), of s] assms(2) by auto
qed

theorem assign_unknown_or_admin_bad_request_witness:
  "fst (assignPolicy mem (assign_request ''alice'' ''admin'') (world0 ''admin'' enclave1 100)) =
       Some (Error StatusBadRequest ''cannot assign policy to system admin'')
   \<and> Vault (snd (assignPolicy mem (assign_request ''alice'' ''admin'')
                    (world0 ''admin'' enclave1 100))) =
       Vault (world0 ''admin'' enclave1 100)
   \<and> fst (assignPolicy mem (assign_request ''alice'' IdentityUnknown)
            (world0 ''admin'' enclave1 100)) =
       Some (Error StatusBadRequest ''identity is unknown'')"
proof -
  let ?r = "assign_request ''alice'' ''admin''"
  let ?s = "world0 ''admin'' enclave1 100"
  let ?r' = "assign_request ''alice'' IdentityUnknown"
  let ?s' = "world0 ''admin'' enclave1 100"
  have h: "DecodeAssign mem ?r = Inr ''admin''"
    "IsUnknown ''admin'' \<or> Admin (Vault ?s) = Inr ''admin''"
    by (simp_all add: mem_def mem_DecodeAssign_def assign_request_def world0_def)
  have reach: "nameFromRequest mem ?r assign_APIPath = Inr ''p1''
      \<and> enclaveFromRequest mem (Vault ?s) ?r = Inr 0
      \<and> VerifyRequest mem (Enclaves (Vault ?s) 0) ?r = None
      \<and> verifyName mem ''admin'' = None"
    "\<not> IsUnknown ''admin'' \<and> Identify mem ?r \<noteq> ''admin''"
    by (simp_all add: mem_def mem_nameFromRequest_def mem_verifyName_def
        mem_enclaveFromRequest_def mem_VerifyRequest_def assign_request_def assign_APIPath_def
        IsUnknown_def IdentityUnknown_def world0_def)
  have h': "DecodeAssign mem ?r' = Inr IdentityUnknown"
    "IsUnknown IdentityUnknown \<or> Admin (Vault ?s') = Inr IdentityUnknown"
    by (simp_all add: mem_def mem_DecodeAssign_def assign_request_def IsUnknown_def)
  have reach': "nameFromRequest mem ?r' assign_APIPath = Inr ''p1''
      \<and> enclaveFromRequest mem (Vault ?s') ?r' = Inr 0
      \<and> VerifyRequest mem (Enclaves (Vault ?s') 0) ?r' = None
      \<and> verifyName mem IdentityUnknown = None"
    "IsUnknown IdentityUnknown"
    by (simp_all add: mem_def mem_nameFromRequest_def mem_verifyName_def
        mem_enclaveFromRequest_def mem_VerifyRequest_def assign_request_def assign_APIPath_def
        IsUnknown_def IdentityUnknown_def world0_def)
  show ?thesis
    using assign_unknown_or_admin_bad_request[OF h, of] reach
      assign_unknown_or_admin_bad_request[OF h'] reach'
    by blast
qed

section \<open>The streaming list protocol\<close>


lemma Encode_healthy:
  "Faults w = [] \<Longrightarrow> Encode v w = (None, (WriteHeader StatusOK w)\<lparr>Body := Body w @ [v]\<rparr>)"
  by (simp add: Encode_def WriteHeader_def Let_def)

lemma list_loop_Cons_skip:
  "\<not> matches D pattern name \<Longrightarrow>
     list_loop D enclave pattern (name # names) hw s = list_loop D enclave pattern names hw s"
  by (cases "Match D pattern name") (simp add: matches_def)

lemma list_loop_Cons_match:
  "matches D pattern name \<Longrightarrow>
     list_loop D enclave pattern (name # names) hw s =
       (let s1 = (if hw then s else s\<lparr>W := commit (W s)\<rparr>) in
        case GetPolicy D (Enclaves (Vault s) enclave) name of
          Inl err \<Rightarrow> (Inl (True, err), emit (Call ''GetPolicy'') s1)
        | Inr policy \<Rightarrow>
            (case Encode (ListResponse name (CreatedAt policy) (CreatedBy policy) []) (W s1) of
               (Some err, w) \<Rightarrow> (Inl (True, err), emit (Call ''GetPolicy'') s1\<lparr>W := w\<rparr>)
             | (None, w) \<Rightarrow>
                 list_loop D enclave pattern names True (emit (Call ''GetPolicy'') s1\<lparr>W := w\<rparr>)))"
  by (cases "Match D pattern name")
     (auto simp: matches_def enclave_GetPolicy_def commit_def emit_def Let_def
       split: sum.splits option.splits prod.splits)

declare list_loop.simps(2) [simp del]

lemma list_loop_append:
  "list_loop D enclave pattern (xs @ ys) hw s =
     (case list_loop D enclave pattern xs hw s of
        (Inl x, s') \<Rightarrow> (Inl x, s')
      | (Inr hw', s') \<Rightarrow> list_loop D enclave pattern ys hw' s')"
proof (induction xs arbitrary: hw s)
  case Nil
  then show ?case by simp
next
  case (Cons x xs)
  then show ?case
    by (cases "matches D pattern x")
       (auto simp: list_loop_Cons_skip list_loop_Cons_match Let_def
         split: prod.splits sum.splits option.splits)
qed

lemma list_loop_skip:
  "\<forall>n \<in> set xs. \<not> matches D pattern n \<Longrightarrow>
     list_loop D enclave pattern xs hw s = (Inr hw, s)"
  by (induction xs) (auto simp: list_loop_Cons_skip)

lemma list_loop_ok:
  assumes "Faults (W s) = []"
    and "\<forall>n \<in> set xs. matches D pattern n \<longrightarrow>
           (\<exists>p. GetPolicy D (Enclaves (Vault s) enclave) n = Inr p)"
  shows "list_loop D enclave pattern xs hw s =
     (Inr (hw \<or> filter (matches D pattern) xs \<noteq> []),
      s\<lparr>W := listed D (Enclaves (Vault s) enclave) pattern xs hw (W s),
        Trace := Trace s @ map (\<lambda>_. Call ''GetPolicy'') (filter (matches D pattern) xs)\<rparr>)"
  using assms
proof (induction xs arbitrary: hw s)
  case Nil
  then show ?case by (simp add: listed_def)
next
  case (Cons x xs)
  show ?case
  proof (cases "matches D pattern x")
    case False
    then show ?thesis
      using Cons.IH[of s hw] Cons.prems
      by (simp add: list_loop_Cons_skip listed_def)
  next
    case True
    then obtain p where p: "GetPolicy D (Enclaves (Vault s) enclave) x = Inr p"
      using Cons.prems(2) by auto
    let ?w1 = "if hw then W s else commit (W s)"
    let ?w2 = "(WriteHeader StatusOK ?w1)\<lparr>Body := Body (W s) @ [entry D (Enclaves (Vault s) enclave) x]\<rparr>"
    let ?s2 = "s\<lparr>Trace := Trace s @ [Call ''GetPolicy''], W := ?w2\<rparr>"
    have step: "list_loop D enclave pattern (x # xs) hw s = list_loop D enclave pattern xs True ?s2"
      using True p Cons.prems(1)
      by (auto simp: list_loop_Cons_match emit_def Encode_healthy commit_def
          HeaderSetContentType_def WriteHeader_def entry_def entry_of_def Let_def)
    have f: "Faults (W ?s2) = []"
      using Cons.prems(1) by (simp add: commit_def HeaderSetContentType_def WriteHeader_def)
    have g: "\<forall>n \<in> set xs. matches D pattern n \<longrightarrow>
           (\<exists>p. GetPolicy D (Enclaves (Vault ?s2) enclave) n = Inr p)"
      using Cons.prems(2) by simp
    show ?thesis
      unfolding step Cons.IH[OF f g, of True]
      using True
      by (auto simp: listed_def commit_def HeaderSetContentType_def WriteHeader_def Let_def)
  qed
qed

lemma list_loop_fail:
  assumes "Faults (W s) = []"
    and "\<forall>n \<in> set pre. matches D pattern n \<longrightarrow>
           (\<exists>p. GetPolicy D (Enclaves (Vault s) enclave) n = Inr p)"
    and "matches D pattern name"
    and "GetPolicy D (Enclaves (Vault s) enclave) name = Inl err"
  shows "fst (list_loop D enclave pattern (pre @ name # rest) False s) = Inl (True, err)"
    and "snd (Encode (ErrResponse err)
               (W (snd (list_loop D enclave pattern (pre @ name # rest) False s)))) =
         listed D (Enclaves (Vault s) enclave) pattern (pre @ [name]) False (W s)"
    and "Vault (snd (list_loop D enclave pattern (pre @ name # rest) False s)) = Vault s"
  using assms(1,3,4)
  by (auto simp: list_loop_append list_loop_ok[OF assms(1,2)] list_loop_Cons_match Let_def
      listed_def commit_def HeaderSetContentType_def WriteHeader_def Encode_healthy
      entry_def entry_of_def)


lemma at_loop_simps [simp]:
  "Vault (at_loop enclave s) = Vault s"
  "W (at_loop enclave s) = W s"
  by (simp_all add: at_loop_def)

lemma listPolicy_loop:
  assumes "patternFromRequest D r list_APIPath = Inr pattern"
    and "enclaveFromRequest D (Vault s) r = Inr enclave"
    and "VerifyRequest D (Enclaves (Vault s) enclave) r = None"
    and "ListPolicies D (Enclaves (Vault s) enclave) = Inr it"
  shows "fst (listPolicy D r s) =
      (case fst (list_loop D enclave pattern (Names it) False (at_loop enclave s)) of
         Inl (hw, err) \<Rightarrow> if hw then None else Some err
       | Inr hw \<Rightarrow>
           (case CloseErr it of Some err \<Rightarrow> if hw then None else Some err | None \<Rightarrow> None))"
    and "W (snd (listPolicy D r s)) =
      (let w = W (snd (list_loop D enclave pattern (Names it) False (at_loop enclave s))) in
       case fst (list_loop D enclave pattern (Names it) False (at_loop enclave s)) of
         Inl (hw, err) \<Rightarrow> if hw then snd (Encode (ErrResponse err) w) else w
       | Inr hw \<Rightarrow>
           (case CloseErr it of
              Some err \<Rightarrow> if hw then snd (Encode (ErrResponse err) w) else w
            | None \<Rightarrow> if \<not> hw then WriteHeader StatusOK w else w))"
    and "Vault (snd (listPolicy D r s)) =
      Vault (snd (list_loop D enclave pattern (Names it) False (at_loop enclave s)))"
  using assms
  by (auto simp: listPolicy_def VSync_apply list_locked_def enclave_VerifyRequest_def
      enclave_ListPolicies_def iterator_Close_def at_loop_def Let_def
      split: sum.splits option.splits prod.splits)


lemma listPolicy_fetch_failure:
  assumes "patternFromRequest D r list_APIPath = Inr pattern"
    and "enclaveFromRequest D (Vault s) r = Inr enclave"
    and "VerifyRequest D (Enclaves (Vault s) enclave) r = None"
    and "ListPolicies D (Enclaves (Vault s) enclave) = Inr it"
    and "Faults (W s) = []"
    and "Status (W s) = None"
    and "\<forall>n \<in> set pre. matches D pattern n \<longrightarrow>
           (\<exists>p. GetPolicy D (Enclaves (Vault s) enclave) n = Inr p)"
    and n: "Names it = pre @ name # rest" "matches D pattern name"
      "GetPolicy D (Enclaves (Vault s) enclave) name = Inl err"
  shows "fst (listPolicy D r s) = None
      \<and> Status (W (snd (listPolicy D r s))) = Some StatusOK
      \<and> Body (W (snd (listPolicy D r s))) =
          Body (W s) @ map (entry D (Enclaves (Vault s) enclave))
                           (filter (matches D pattern) pre)
                     @ [ErrResponse err]"
proof -
  let ?e = "Enclaves (Vault s) enclave"
  let ?s = "at_loop enclave s"
  have f: "Faults (W ?s) = []"
    using assms(5) by simp
  have ok: "\<forall>n \<in> set pre. matches D pattern n \<longrightarrow>
           (\<exists>p. GetPolicy D (Enclaves (Vault ?s) enclave) n = Inr p)"
    using assms(7) by simp
  have g: "GetPolicy D (Enclaves (Vault ?s) enclave) name = Inl err"
    using n(3) by simp
  note l = list_loop_fail[OF f ok n(2) g, of rest]
  have w: "W (snd (listPolicy D r s)) = listed D ?e pattern (pre @ [name]) False (W s)"
    using listPolicy_loop(2)[OF assms(1-4)] l(1,2) n(1) by (simp add: Let_def)
  have "fst (listPolicy D r s) = None"
    using listPolicy_loop(1)[OF assms(1-4)] l(1) n(1) by simp
  moreover have "entry D ?e name = ErrResponse err"
    using n(3) by (simp add: entry_def entry_of_def)
  ultimately show ?thesis
    using w n(2) assms(6)
    by (simp add: listed_def commit_def WriteHeader_def HeaderSetContentType_def)
qed




section \<open>Failures of the list handlers before and after the commitment\<close>

lemma edge_list_loop_Cons_skip:
  "\<not> matches D pattern name \<Longrightarrow>
     edge_list_loop D config pattern (name # names) hw w =
       edge_list_loop D config pattern names hw w"
  by (cases "Match D pattern name") (simp add: matches_def)

lemma edge_list_loop_Cons_match:
  "matches D pattern name \<Longrightarrow>
     edge_list_loop D config pattern (name # names) hw w =
       (let w1 = (if hw then w else HeaderSetContentType ndjson w) in
        case Policies_Get config name of
          Inl err \<Rightarrow> (None, snd (Encode (ErrResponse err) w1))
        | Inr policy \<Rightarrow>
            (case Encode (ListResponse name (CreatedAt policy) (CreatedBy policy) []) w1 of
               (Some err, w2) \<Rightarrow> (None, w2)
             | (None, w2) \<Rightarrow> edge_list_loop D config pattern names True w2))"
  by (cases "Match D pattern name")
     (auto simp: matches_def Let_def split: sum.splits option.splits prod.splits)

declare edge_list_loop.simps(2) [simp del]

lemma edge_list_loop_append:
  "edge_list_loop D config pattern (xs @ ys) hw w =
     (case edge_list_loop D config pattern xs hw w of
        (None, w') \<Rightarrow> (None, w')
      | (Some hw', w') \<Rightarrow> edge_list_loop D config pattern ys hw' w')"
proof (induction xs arbitrary: hw w)
  case Nil
  then show ?case by simp
next
  case (Cons x xs)
  then show ?case
    by (cases "matches D pattern x")
       (auto simp: edge_list_loop_Cons_skip edge_list_loop_Cons_match Let_def
         split: prod.splits sum.splits option.splits)
qed

lemma edge_list_loop_skip:
  "\<forall>n \<in> set xs. \<not> matches D pattern n \<Longrightarrow>
     edge_list_loop D config pattern xs hw w = (Some hw, w)"
  by (induction xs) (auto simp: edge_list_loop_Cons_skip)

lemma listPolicy_before_loop:
  assumes "patternFromRequest D r list_APIPath = Inr pattern"
    and "enclaveFromRequest D (Vault s) r = Inr enclave"
  shows "VerifyRequest D (Enclaves (Vault s) enclave) r = Some err \<Longrightarrow>
           fst (listPolicy D r s) = Some err \<and> W (snd (listPolicy D r s)) = W s"
    and "VerifyRequest D (Enclaves (Vault s) enclave) r = None \<Longrightarrow>
         ListPolicies D (Enclaves (Vault s) enclave) = Inl err \<Longrightarrow>
           fst (listPolicy D r s) = Some err \<and> W (snd (listPolicy D r s)) = W s"
  using assms
  by (auto simp: listPolicy_def VSync_apply list_locked_def enclave_VerifyRequest_def
      enclave_ListPolicies_def)

lemma listPolicy_no_match:
  assumes "patternFromRequest D r list_APIPath = Inr pattern"
    and "enclaveFromRequest D (Vault s) r = Inr enclave"
    and "VerifyRequest D (Enclaves (Vault s) enclave) r = None"
    and "ListPolicies D (Enclaves (Vault s) enclave) = Inr it"
    and "\<forall>n \<in> set (Names it). \<not> matches D pattern n"
  shows "fst (listPolicy D r s) = CloseErr it"
    and "W (snd (listPolicy D r s)) =
           (case CloseErr it of Some err \<Rightarrow> W s | None \<Rightarrow> WriteHeader StatusOK (W s))"
  using listPolicy_loop(1,2)[OF assms(1-4)] list_loop_skip[OF assms(5)]
  by (auto simp: Let_def split: option.splits)

lemma edgeListPolicy_no_match:
  assumes "patternFromRequest D r list_APIPath = Inr pattern"
    and "auth_VerifyRequest config r = None"
    and "Policies_List config = Inr it"
    and "\<forall>n \<in> set (Names it). \<not> matches D pattern n"
  shows "edgeListPolicy D config r w =
           (case CloseErr it of
              Some err \<Rightarrow> (Some err, HeaderSetContentType ndjson w)
            | None \<Rightarrow> (None, WriteHeader StatusOK (HeaderSetContentType ndjson w)))"
  using assms(1-3) edge_list_loop_skip[OF assms(4)]
  by (auto simp: edgeListPolicy_def HeaderSetContentType_def split: option.splits)

lemma edgeListPolicy_first_fetch_failure:
  assumes "patternFromRequest D r list_APIPath = Inr pattern"
    and "auth_VerifyRequest config r = None"
    and "Policies_List config = Inr it"
    and "Names it = pre @ name # rest"
    and "\<forall>n \<in> set pre. \<not> matches D pattern n"
    and "matches D pattern name"
    and "Policies_Get config name = Inl err"
  shows "edgeListPolicy D config r w =
           (None, snd (Encode (ErrResponse err) (HeaderSetContentType ndjson w)))"
  using assms(1-4,6,7) edge_list_loop_skip[OF assms(5)]
  by (auto simp: edgeListPolicy_def edge_list_loop_append edge_list_loop_Cons_match
      HeaderSetContentType_def Let_def split: option.splits)


text \<open>
  Claim C4, as stated, fails: no fetch of a matched policy happens before the handler has
  committed. Both list handlers set \<open>hasWritten\<close> at the match, before the fetch (lines 440
  to 446 and 527 to 532), and the edge handler writes the error record without looking at
  \<open>hasWritten\<close> (line 534). With nothing written yet and the fetch for the first matched
  name failing, both return no error and answer with success and the error in the body.
\<close>

theorem list_first_fetch_failure_counterexample:
  "fst (listPolicy (mem_faulty [''p1''] None) (list_request ''*'') (world0 ''admin'' enclave1 100)) = None
   \<and> W (snd (listPolicy (mem_faulty [''p1''] None) (list_request ''*'')
               (world0 ''admin'' enclave1 100))) =
       \<lparr>ContentType = Some ''application/x-ndjson'', Status = Some StatusOK,
        Body = [ListResponse [] 0 [] ''store: read failed''], Faults = []\<rparr>
   \<and> edgeListPolicy (mem_faulty [''p1''] None) (mem_edge (mem_faulty [''p1''] None) enclave1)
        (list_request ''*'') NewWriter =
       (None, \<lparr>ContentType = Some ''application/x-ndjson'', Status = Some StatusOK,
               Body = [ListResponse [] 0 [] ''store: read failed''], Faults = []\<rparr>)"
  by (simp add: listPolicy_def edgeListPolicy_def VSync_apply list_locked_def
      enclave_VerifyRequest_def enclave_ListPolicies_def enclave_GetPolicy_def
      iterator_Close_def list_loop.simps edge_list_loop.simps mem_defs list_request_def
      list_APIPath_def ndjson_def Encode_def WriteHeader_def HeaderSetContentType_def
      ErrResponse_def Let_def)

text \<open>
  Claim C4, amended. In both list handlers a failure that comes before any name has
  matched (verifying the request, opening the iterator, closing the iterator when no name
  matched) is surfaced as a normal error response: the handler returns the error and has
  written neither a status nor a line of body. A failure of fetching the policy of a
  matched name is never in that position: even for the first matched name, over a
  connection that does not fail and a response nothing has been written to, the handler
  returns no error, the status is success and the body is the error record.
\<close>

theorem list_failure_reporting:
  assumes "patternFromRequest D r list_APIPath = Inr pattern"
    and "enclaveFromRequest D (Vault s) r = Inr enclave"
  shows "(VerifyRequest D (Enclaves (Vault s) enclave) r = Some err
          \<longrightarrow> surfaced err (outcome (listPolicy D r s)) (W s))
       \<and> (VerifyRequest D (Enclaves (Vault s) enclave) r = None
            \<and> ListPolicies D (Enclaves (Vault s) enclave) = Inl err
          \<longrightarrow> surfaced err (outcome (listPolicy D r s)) (W s))
       \<and> (VerifyRequest D (Enclaves (Vault s) enclave) r = None
            \<and> ListPolicies D (Enclaves (Vault s) enclave) = Inr it
            \<and> (\<forall>n \<in> set (Names it). \<not> matches D pattern n)
            \<and> CloseErr it = Some err
          \<longrightarrow> surfaced err (outcome (listPolicy D r s)) (W s))
       \<and> (VerifyRequest D (Enclaves (Vault s) enclave) r = None
            \<and> ListPolicies D (Enclaves (Vault s) enclave) = Inr it
            \<and> Names it = pre @ name # rest
            \<and> (\<forall>n \<in> set pre. \<not> matches D pattern n)
            \<and> matches D pattern name
            \<and> GetPolicy D (Enclaves (Vault s) enclave) name = Inl err
            \<and> Faults (W s) = [] \<and> Status (W s) = None
          \<longrightarrow> in_body err (outcome (listPolicy D r s)) (W s))
       \<and> (auth_VerifyRequest config r = Some err
          \<longrightarrow> surfaced err (edgeListPolicy D config r w) w)
       \<and> (auth_VerifyRequest config r = None \<and> Policies_List config = Inl err
          \<longrightarrow> surfaced err (edgeListPolicy D config r w) w)
       \<and> (auth_VerifyRequest config r = None \<and> Policies_List config = Inr it'
            \<and> (\<forall>n \<in> set (Names it'). \<not> matches D pattern n)
            \<and> CloseErr it' = Some err
          \<longrightarrow> surfaced err (edgeListPolicy D config r w) w)
       \<and> (auth_VerifyRequest config r = None \<and> Policies_List config = Inr it'
            \<and> Names it' = pre @ name # rest
            \<and> (\<forall>n \<in> set pre. \<not> matches D pattern n)
            \<and> matches D pattern name
            \<and> Policies_Get config name = Inl err
            \<and> Faults w = [] \<and> Status w = None
          \<longrightarrow> in_body err (edgeListPolicy D config r w) w)"
proof -
  let ?e = "Enclaves (Vault s) enclave"
  have l1: "surfaced err (outcome (listPolicy D r s)) (W s)"
    if "VerifyRequest D ?e r = Some err"
    using listPolicy_before_loop(1)[OF assms that] by (simp add: surfaced_def outcome_def)
  have l2: "surfaced err (outcome (listPolicy D r s)) (W s)"
    if "VerifyRequest D ?e r = None" "ListPolicies D ?e = Inl err"
    using listPolicy_before_loop(2)[OF assms that] by (simp add: surfaced_def outcome_def)
  have l3: "surfaced err (outcome (listPolicy D r s)) (W s)"
    if "VerifyRequest D ?e r = None" "ListPolicies D ?e = Inr it"
      "\<forall>n \<in> set (Names it). \<not> matches D pattern n" "CloseErr it = Some err"
    using listPolicy_no_match[OF assms that(1-3)] that(4)
    by (simp add: surfaced_def outcome_def)
  have l4: "in_body err (outcome (listPolicy D r s)) (W s)"
    if h: "VerifyRequest D ?e r = None" "ListPolicies D ?e = Inr it"
      "Names it = pre @ name # rest" "\<forall>n \<in> set pre. \<not> matches D pattern n"
      "matches D pattern name" "GetPolicy D ?e name = Inl err"
      "Faults (W s) = []" "Status (W s) = None"
  proof -
    have ok: "\<forall>n \<in> set pre. matches D pattern n \<longrightarrow> (\<exists>p. GetPolicy D ?e n = Inr p)"
      using h(4) by simp
    have "filter (matches D pattern) pre = []"
      using h(4) by (simp add: filter_empty_conv)
    then show ?thesis
      using listPolicy_fetch_failure[OF assms h(1,2,7,8) ok h(3,5,6)]
      by (simp add: in_body_def outcome_def)
  qed
  have e1: "surfaced err (edgeListPolicy D config r w) w"
    if "auth_VerifyRequest config r = Some err"
    using assms(1) that by (simp add: surfaced_def edgeListPolicy_def)
  have e2: "surfaced err (edgeListPolicy D config r w) w"
    if "auth_VerifyRequest config r = None" "Policies_List config = Inl err"
    using assms(1) that by (simp add: surfaced_def edgeListPolicy_def)
  have e3: "surfaced err (edgeListPolicy D config r w) w"
    if "auth_VerifyRequest config r = None" "Policies_List config = Inr it'"
      "\<forall>n \<in> set (Names it'). \<not> matches D pattern n" "CloseErr it' = Some err"
    using edgeListPolicy_no_match[OF assms(1) that(1-3), of w] that(4)
    by (simp add: surfaced_def HeaderSetContentType_def)
  have e4: "in_body err (edgeListPolicy D config r w) w"
    if h: "auth_VerifyRequest config r = None" "Policies_List config = Inr it'"
      "Names it' = pre @ name # rest" "\<forall>n \<in> set pre. \<not> matches D pattern n"
      "matches D pattern name" "Policies_Get config name = Inl err"
      "Faults w = []" "Status w = None"
    using edgeListPolicy_first_fetch_failure[OF assms(1) h(1-6), of w] h(7,8)
    by (simp add: in_body_def Encode_healthy HeaderSetContentType_def WriteHeader_def)
  show ?thesis
    using l1 l2 l3 l4 e1 e2 e3 e4 by blast
qed


theorem list_failure_reporting_witness:
  "in_body (Failure ''store: read failed'')
     (outcome (listPolicy (mem_faulty [''p1''] None) (list_request ''*'')
        (world0 ''admin'' enclave1 100))) NewWriter
   \<and> in_body (Failure ''store: read failed'')
       (edgeListPolicy (mem_faulty [''p1''] None) (mem_edge (mem_faulty [''p1''] None) enclave1)
          (list_request ''*'') NewWriter) NewWriter
   \<and> surfaced (Failure ''close failed'')
       (outcome (listPolicy (mem_faulty [] (Some (Failure ''close failed''))) (list_request ''zzz'')
          (world0 ''admin'' enclave1 100))) NewWriter
   \<and> surfaced (Failure ''close failed'')
       (edgeListPolicy (mem_faulty [] (Some (Failure ''close failed'')))
          (mem_edge (mem_faulty [] (Some (Failure ''close failed''))) enclave1)
          (list_request ''zzz'') NewWriter) NewWriter
   \<and> surfaced (Error StatusForbidden ''not authorized: insufficient permissions'')
       (outcome (listPolicy mem ((list_request ''*'')\<lparr>Peer := IdentityUnknown\<rparr>)
          (world0 ''admin'' enclave1 100))) NewWriter
   \<and> surfaced (Error StatusForbidden ''not authorized: insufficient permissions'')
       (edgeListPolicy mem (mem_edge mem enclave1)
          ((list_request ''*'')\<lparr>Peer := IdentityUnknown\<rparr>) NewWriter) NewWriter
   \<and> surfaced (Failure ''store: list failed'')
       (outcome (listPolicy (mem\<lparr>ListPolicies := (\<lambda>_. Inl (Failure ''store: list failed''))\<rparr>)
          (list_request ''*'') (world0 ''admin'' enclave1 100))) NewWriter
   \<and> surfaced (Failure ''store: list failed'')
       (edgeListPolicy mem
          ((mem_edge mem enclave1)\<lparr>Policies_List := Inl (Failure ''store: list failed'')\<rparr>)
          (list_request ''*'') NewWriter) NewWriter"
proof -
  let ?s = "world0 ''admin'' enclave1 100"
  let ?it = "\<lparr>Names = [''p1'', ''p2''], CloseErr = None\<rparr>"
  let ?D1 = "mem_faulty [''p1''] None"
  let ?r = "list_request ''*''"
  have w0: "W ?s = NewWriter"
    by (simp add: world0_def)
  have r1: "patternFromRequest ?D1 ?r list_APIPath = Inr ''*''"
    "enclaveFromRequest ?D1 (Vault ?s) ?r = Inr 0"
    by (simp_all add: mem_defs list_request_def list_APIPath_def)
  have h1: "VerifyRequest ?D1 (Enclaves (Vault ?s) 0) ?r = None
      \<and> ListPolicies ?D1 (Enclaves (Vault ?s) 0) = Inr ?it
      \<and> Names ?it = [] @ ''p1'' # [''p2'']
      \<and> (\<forall>n \<in> set []. \<not> matches ?D1 ''*'' n)
      \<and> matches ?D1 ''*'' ''p1''
      \<and> GetPolicy ?D1 (Enclaves (Vault ?s) 0) ''p1'' = Inl (Failure ''store: read failed'')
      \<and> Faults (W ?s) = [] \<and> Status (W ?s) = None"
    "auth_VerifyRequest (mem_edge ?D1 enclave1) ?r = None
      \<and> Policies_List (mem_edge ?D1 enclave1) = Inr ?it
      \<and> Names ?it = [] @ ''p1'' # [''p2'']
      \<and> (\<forall>n \<in> set []. \<not> matches ?D1 ''*'' n)
      \<and> matches ?D1 ''*'' ''p1''
      \<and> Policies_Get (mem_edge ?D1 enclave1) ''p1'' = Inl (Failure ''store: read failed'')
      \<and> Faults NewWriter = [] \<and> Status NewWriter = None"
    by (simp_all add: mem_defs list_request_def matches_def)
  let ?D2 = "mem_faulty [] (Some (Failure ''close failed''))"
  let ?it2 = "\<lparr>Names = [''p1'', ''p2''], CloseErr = Some (Failure ''close failed'')\<rparr>"
  let ?r2 = "list_request ''zzz''"
  have r2: "patternFromRequest ?D2 ?r2 list_APIPath = Inr ''zzz''"
    "enclaveFromRequest ?D2 (Vault ?s) ?r2 = Inr 0"
    by (simp_all add: mem_defs list_request_def list_APIPath_def)
  have h2: "VerifyRequest ?D2 (Enclaves (Vault ?s) 0) ?r2 = None
      \<and> ListPolicies ?D2 (Enclaves (Vault ?s) 0) = Inr ?it2
      \<and> (\<forall>n \<in> set (Names ?it2). \<not> matches ?D2 ''zzz'' n)
      \<and> CloseErr ?it2 = Some (Failure ''close failed'')"
    "auth_VerifyRequest (mem_edge ?D2 enclave1) ?r2 = None
      \<and> Policies_List (mem_edge ?D2 enclave1) = Inr ?it2
      \<and> (\<forall>n \<in> set (Names ?it2). \<not> matches ?D2 ''zzz'' n)
      \<and> CloseErr ?it2 = Some (Failure ''close failed'')"
    by (simp_all add: mem_defs list_request_def matches_def)
  let ?r3 = "?r\<lparr>Peer := IdentityUnknown\<rparr>"
  let ?denied = "Error StatusForbidden ''not authorized: insufficient permissions''"
  have r3: "patternFromRequest mem ?r3 list_APIPath = Inr ''*''"
    "enclaveFromRequest mem (Vault ?s) ?r3 = Inr 0"
    by (simp_all add: mem_defs list_request_def list_APIPath_def)
  have h3: "VerifyRequest mem (Enclaves (Vault ?s) 0) ?r3 = Some ?denied"
    "auth_VerifyRequest (mem_edge mem enclave1) ?r3 = Some ?denied"
    by (simp_all add: mem_defs list_request_def)
  let ?D4 = "mem\<lparr>ListPolicies := (\<lambda>_. Inl (Failure ''store: list failed''))\<rparr>"
  let ?c4 = "(mem_edge mem enclave1)\<lparr>Policies_List := Inl (Failure ''store: list failed'')\<rparr>"
  have r4: "patternFromRequest ?D4 ?r list_APIPath = Inr ''*''"
    "enclaveFromRequest ?D4 (Vault ?s) ?r = Inr 0"
    "patternFromRequest mem ?r list_APIPath = Inr ''*''"
    "enclaveFromRequest mem (Vault ?s) ?r = Inr 0"
    by (simp_all add: mem_defs list_request_def list_APIPath_def)
  have h4: "VerifyRequest ?D4 (Enclaves (Vault ?s) 0) ?r = None
      \<and> ListPolicies ?D4 (Enclaves (Vault ?s) 0) = Inl (Failure ''store: list failed'')"
    "auth_VerifyRequest ?c4 ?r = None \<and> Policies_List ?c4 = Inl (Failure ''store: list failed'')"
    by (simp_all add: mem_defs list_request_def)
  note t1 = list_failure_reporting[OF r1, where err = "Failure ''store: read failed''"
        and it = ?it and it' = ?it and pre = "[]" and name = "''p1''" and rest = "[''p2'']"
        and config = "mem_edge ?D1 enclave1" and w = NewWriter, unfolded w0]
  have a1: "in_body (Failure ''store: read failed'') (outcome (listPolicy ?D1 ?r ?s)) NewWriter"
    using t1 h1(1) unfolding w0 by blast
  have a2: "in_body (Failure ''store: read failed'')
      (edgeListPolicy ?D1 (mem_edge ?D1 enclave1) ?r NewWriter) NewWriter"
    using t1 h1(2) by blast
  note t2 = list_failure_reporting[OF r2, where err = "Failure ''close failed''"
        and it = ?it2 and it' = ?it2 and config = "mem_edge ?D2 enclave1" and w = NewWriter,
        unfolded w0]
  have b1: "surfaced (Failure ''close failed'') (outcome (listPolicy ?D2 ?r2 ?s)) NewWriter"
    using t2 h2(1) by blast
  have b2: "surfaced (Failure ''close failed'')
      (edgeListPolicy ?D2 (mem_edge ?D2 enclave1) ?r2 NewWriter) NewWriter"
    using t2 h2(2) by blast
  note t3 = list_failure_reporting[OF r3, where err = ?denied
        and config = "mem_edge mem enclave1" and w = NewWriter, unfolded w0]
  have c1: "surfaced ?denied (outcome (listPolicy mem ?r3 ?s)) NewWriter"
    using t3 h3(1) by blast
  have c2: "surfaced ?denied (edgeListPolicy mem (mem_edge mem enclave1) ?r3 NewWriter) NewWriter"
    using t3 h3(2) by blast
  note t4 = list_failure_reporting[OF r4(1,2), where err = "Failure ''store: list failed''",
        unfolded w0]
  have d1: "surfaced (Failure ''store: list failed'') (outcome (listPolicy ?D4 ?r ?s)) NewWriter"
    using t4 h4(1) by blast
  note t5 = list_failure_reporting[OF r4(3,4), where err = "Failure ''store: list failed''"
        and config = ?c4 and w = NewWriter]
  have d2: "surfaced (Failure ''store: list failed'') (edgeListPolicy mem ?c4 ?r NewWriter) NewWriter"
    using t5 h4(2) by blast
  show ?thesis
    using a1 a2 b1 b2 c1 c2 d1 d2 by simp
qed

section \<open>When the list handler commits\<close>

lemma Encode_header:
  "Status (snd (Encode v w)) = (case Status w of None \<Rightarrow> Some StatusOK | Some c \<Rightarrow> Some c)"
  "ContentType (snd (Encode v w)) = ContentType w"
  by (auto simp: Encode_def WriteHeader_def Let_def split: list.splits option.splits)

lemma list_loop_first_match:
  assumes "\<forall>n \<in> set pre. \<not> matches D pattern n"
    and "matches D pattern name"
  shows "list_loop D enclave pattern (pre @ name # rest) False s =
         list_loop D enclave pattern (name # rest) True (s\<lparr>W := commit (W s)\<rparr>)"
  using assms(2) by (simp add: list_loop_append list_loop_skip[OF assms(1)] list_loop_Cons_match)

lemma list_loop_committed:
  assumes "Status (W s) = Some c"
  shows "Status (W (snd (list_loop D enclave pattern xs True s))) = Some c
       \<and> ContentType (W (snd (list_loop D enclave pattern xs True s))) = ContentType (W s)"
  using assms
proof (induction xs arbitrary: s)
  case Nil
  then show ?case by simp
next
  case (Cons x xs)
  show ?case
  proof (cases "matches D pattern x")
    case False
    then show ?thesis
      using Cons.IH[OF Cons.prems] by (simp add: list_loop_Cons_skip)
  next
    case True
    show ?thesis
    proof (cases "GetPolicy D (Enclaves (Vault s) enclave) x")
      case (Inl err)
      then show ?thesis
        using True Cons.prems by (simp add: list_loop_Cons_match)
    next
      case (Inr p)
      let ?res = "Encode (ListResponse x (CreatedAt p) (CreatedBy p) []) (W s)"
      let ?s2 = "emit (Call ''GetPolicy'') s\<lparr>W := snd ?res\<rparr>"
      have st: "Status (W ?s2) = Some c" "ContentType (W ?s2) = ContentType (W s)"
        using Cons.prems by (simp_all add: Encode_header)
      show ?thesis
        using True Inr st Cons.IH[OF st(1)]
        by (cases ?res) (auto simp: list_loop_Cons_match split: option.splits)
    qed
  qed
qed

lemma listPolicy_some_match:
  assumes "patternFromRequest D r list_APIPath = Inr pattern"
    and "enclaveFromRequest D (Vault s) r = Inr enclave"
    and "VerifyRequest D (Enclaves (Vault s) enclave) r = None"
    and "ListPolicies D (Enclaves (Vault s) enclave) = Inr it"
    and "\<exists>n \<in> set (Names it). matches D pattern n"
    and "Status (W s) = None"
  shows "Status (W (snd (listPolicy D r s))) = Some StatusOK
       \<and> ContentType (W (snd (listPolicy D r s))) = Some ndjson"
proof -
  obtain pre name rest where sp: "Names it = pre @ name # rest" "matches D pattern name"
    "\<forall>n \<in> set pre. \<not> matches D pattern n"
    using split_list_first_prop[OF assms(5)] by blast
  let ?s = "(at_loop enclave s)\<lparr>W := commit (W (at_loop enclave s))\<rparr>"
  let ?l = "list_loop D enclave pattern (Names it) False (at_loop enclave s)"
  have c: "Status (W ?s) = Some StatusOK" "ContentType (W ?s) = Some ndjson"
    using assms(6) by (simp_all add: commit_def WriteHeader_def HeaderSetContentType_def)
  have "?l = list_loop D enclave pattern (name # rest) True ?s"
    using list_loop_first_match[OF sp(3,2)] sp(1) by simp
  then have inv: "Status (W (snd ?l)) = Some StatusOK" "ContentType (W (snd ?l)) = Some ndjson"
    using list_loop_committed[OF c(1), of D enclave pattern "name # rest"] c(2) by simp_all
  show ?thesis
    using listPolicy_loop(2)[OF assms(1-4)] inv
    by (auto simp: Let_def Encode_header WriteHeader_def split: sum.splits option.splits)
qed

text \<open>
  Claim C5. In \<open>listPolicy\<close> the names before the first matching one leave hasWritten and
  the response as they were, and at the first matching name the handler commits, writing
  \<open>StatusOK\<close> and the content type \<open>application/x-ndjson\<close>, before it fetches the policy. So
  for a request that gets as far as the loop: once a name matches, the response has status
  \<open>StatusOK\<close> and that content type whatever happens afterwards; and when no name matches,
  the content type is never set, nothing is written to the body, the handler returns what
  closing the iterator returns, and with no error the response is the bare \<open>StatusOK\<close>.
\<close>

theorem list_commits_at_first_match:
  assumes "patternFromRequest D r list_APIPath = Inr pattern"
    and "enclaveFromRequest D (Vault s) r = Inr enclave"
    and "VerifyRequest D (Enclaves (Vault s) enclave) r = None"
    and "ListPolicies D (Enclaves (Vault s) enclave) = Inr it"
  shows "((\<forall>n \<in> set pre. \<not> matches D pattern n) \<longrightarrow>
            list_loop D enclave pattern pre False s' = (Inr False, s'))
       \<and> ((\<forall>n \<in> set pre. \<not> matches D pattern n) \<and> matches D pattern name \<longrightarrow>
            list_loop D enclave pattern (pre @ name # rest) False s' =
            list_loop D enclave pattern (name # rest) True (s'\<lparr>W := commit (W s')\<rparr>))
       \<and> ((\<exists>n \<in> set (Names it). matches D pattern n) \<and> Status (W s) = None \<longrightarrow>
            Status (W (snd (listPolicy D r s))) = Some StatusOK
            \<and> ContentType (W (snd (listPolicy D r s))) = Some ''application/x-ndjson'')
       \<and> ((\<forall>n \<in> set (Names it). \<not> matches D pattern n) \<longrightarrow>
            fst (listPolicy D r s) = CloseErr it
            \<and> ContentType (W (snd (listPolicy D r s))) = ContentType (W s)
            \<and> Body (W (snd (listPolicy D r s))) = Body (W s)
            \<and> (CloseErr it = None \<longrightarrow>
                 W (snd (listPolicy D r s)) = WriteHeader StatusOK (W s)))"
proof -
  have a: "list_loop D enclave pattern pre False s' = (Inr False, s')"
    if "\<forall>n \<in> set pre. \<not> matches D pattern n"
    using list_loop_skip[OF that] .
  have b: "list_loop D enclave pattern (pre @ name # rest) False s' =
            list_loop D enclave pattern (name # rest) True (s'\<lparr>W := commit (W s')\<rparr>)"
    if "\<forall>n \<in> set pre. \<not> matches D pattern n" "matches D pattern name"
    using list_loop_first_match[OF that] .
  have c: "Status (W (snd (listPolicy D r s))) = Some StatusOK
            \<and> ContentType (W (snd (listPolicy D r s))) = Some ''application/x-ndjson''"
    if "\<exists>n \<in> set (Names it). matches D pattern n" "Status (W s) = None"
    using listPolicy_some_match[OF assms that] by (simp add: ndjson_def)
  have d: "fst (listPolicy D r s) = CloseErr it
            \<and> ContentType (W (snd (listPolicy D r s))) = ContentType (W s)
            \<and> Body (W (snd (listPolicy D r s))) = Body (W s)
            \<and> (CloseErr it = None \<longrightarrow>
                 W (snd (listPolicy D r s)) = WriteHeader StatusOK (W s))"
    if "\<forall>n \<in> set (Names it). \<not> matches D pattern n"
    using listPolicy_no_match[OF assms that]
    by (auto simp: WriteHeader_def split: option.splits)
  show ?thesis
    using a b c d by blast
qed


theorem list_commits_at_first_match_witness:
  "fst (listPolicy mem (list_request ''zzz'') (world0 ''admin'' enclave1 100)) = None
   \<and> W (snd (listPolicy mem (list_request ''zzz'') (world0 ''admin'' enclave1 100))) =
       \<lparr>ContentType = None, Status = Some StatusOK, Body = [], Faults = []\<rparr>
   \<and> Status (W (snd (listPolicy mem (list_request ''p2'') (world0 ''admin'' enclave1 100)))) =
       Some StatusOK
   \<and> ContentType (W (snd (listPolicy mem (list_request ''p2'') (world0 ''admin'' enclave1 100)))) =
       Some ''application/x-ndjson''
   \<and> list_loop mem 0 ''p2'' [''p1''] False (world0 ''admin'' enclave1 100) =
       (Inr False, world0 ''admin'' enclave1 100)
   \<and> list_loop mem 0 ''p2'' ([''p1''] @ ''p2'' # []) False (world0 ''admin'' enclave1 100) =
       list_loop mem 0 ''p2'' (''p2'' # []) True
         ((world0 ''admin'' enclave1 100)\<lparr>W := commit (W (world0 ''admin'' enclave1 100))\<rparr>)"
proof -
  let ?s = "world0 ''admin'' enclave1 100"
  let ?it = "\<lparr>Names = [''p1'', ''p2''], CloseErr = None\<rparr>"
  let ?r = "list_request ''zzz''"
  have r1: "patternFromRequest mem ?r list_APIPath = Inr ''zzz''"
    "enclaveFromRequest mem (Vault ?s) ?r = Inr 0"
    "VerifyRequest mem (Enclaves (Vault ?s) 0) ?r = None"
    "ListPolicies mem (Enclaves (Vault ?s) 0) = Inr ?it"
    by (simp_all add: mem_defs list_request_def list_APIPath_def)
  have h1: "\<forall>n \<in> set (Names ?it). \<not> matches mem ''zzz'' n" "CloseErr ?it = None"
    by (simp_all add: mem_defs matches_def)
  let ?r2 = "list_request ''p2''"
  have r2: "patternFromRequest mem ?r2 list_APIPath = Inr ''p2''"
    "enclaveFromRequest mem (Vault ?s) ?r2 = Inr 0"
    "VerifyRequest mem (Enclaves (Vault ?s) 0) ?r2 = None"
    "ListPolicies mem (Enclaves (Vault ?s) 0) = Inr ?it"
    by (simp_all add: mem_defs list_request_def list_APIPath_def)
  have h2: "(\<exists>n \<in> set (Names ?it). matches mem ''p2'' n) \<and> Status (W ?s) = None"
    "(\<forall>n \<in> set [''p1'']. \<not> matches mem ''p2'' n) \<and> matches mem ''p2'' ''p2''"
    by (simp_all add: mem_defs matches_def)
  have w: "WriteHeader StatusOK (W ?s) =
      \<lparr>ContentType = None, Status = Some StatusOK, Body = [], Faults = []\<rparr>"
    by (simp add: mem_defs WriteHeader_def)
  note t1 = list_commits_at_first_match[OF r1]
  have a: "fst (listPolicy mem ?r ?s) = None"
    "W (snd (listPolicy mem ?r ?s)) = WriteHeader StatusOK (W ?s)"
    using t1 h1 by simp_all
  note t2 = list_commits_at_first_match[OF r2, where pre = "[''p1'']" and name = "''p2''"
      and rest = "[]" and s' = ?s]
  have b: "Status (W (snd (listPolicy mem ?r2 ?s))) = Some StatusOK"
    "ContentType (W (snd (listPolicy mem ?r2 ?s))) = Some ''application/x-ndjson''"
    using t2 h2(1) by blast+
  have c: "list_loop mem 0 ''p2'' [''p1''] False ?s = (Inr False, ?s)"
    "list_loop mem 0 ''p2'' ([''p1''] @ ''p2'' # []) False ?s =
       list_loop mem 0 ''p2'' (''p2'' # []) True (?s\<lparr>W := commit (W ?s)\<rparr>)"
    using t2 h2(2) by blast+
  show ?thesis
    using a b c unfolding w by simp
qed

section \<open>Errors of matching the pattern\<close>

lemma drop_match_errors_simps:
  "matches (drop_match_errors D) = matches D"
  "patternFromRequest (drop_match_errors D) = patternFromRequest D"
  "enclaveFromRequest (drop_match_errors D) = enclaveFromRequest D"
  "enclave_VerifyRequest (drop_match_errors D) = enclave_VerifyRequest D"
  "enclave_ListPolicies (drop_match_errors D) = enclave_ListPolicies D"
  "GetPolicy (drop_match_errors D) = GetPolicy D"
  by (simp_all add: fun_eq_iff matches_def drop_match_errors_def enclave_VerifyRequest_def
      enclave_ListPolicies_def)

lemma list_loop_drop_match_errors:
  "list_loop (drop_match_errors D) enclave pattern xs hw s = list_loop D enclave pattern xs hw s"
proof (induction xs arbitrary: hw s)
  case Nil
  then show ?case by simp
next
  case (Cons x xs)
  show ?case
  proof (cases "matches D pattern x")
    case False
    then show ?thesis
      using Cons.IH by (simp add: list_loop_Cons_skip drop_match_errors_simps)
  next
    case True
    then have m: "matches (drop_match_errors D) pattern x"
      by (simp add: drop_match_errors_simps)
    show ?thesis
      unfolding list_loop_Cons_match[OF m] list_loop_Cons_match[OF True] Cons.IH
        drop_match_errors_simps
      by (rule refl)
  qed
qed

lemma edge_list_loop_drop_match_errors:
  "edge_list_loop (drop_match_errors D) config pattern xs hw w =
   edge_list_loop D config pattern xs hw w"
proof (induction xs arbitrary: hw w)
  case Nil
  then show ?case by simp
next
  case (Cons x xs)
  show ?case
  proof (cases "matches D pattern x")
    case False
    then show ?thesis
      using Cons.IH by (simp add: edge_list_loop_Cons_skip drop_match_errors_simps)
  next
    case True
    then have m: "matches (drop_match_errors D) pattern x"
      by (simp add: drop_match_errors_simps)
    show ?thesis
      unfolding edge_list_loop_Cons_match[OF m] edge_list_loop_Cons_match[OF True] Cons.IH
      by (rule refl)
  qed
qed

lemma listPolicy_drop_match_errors:
  "listPolicy (drop_match_errors D) r s = listPolicy D r s"
  unfolding listPolicy_def list_locked_def list_loop_drop_match_errors drop_match_errors_simps
  by (rule refl)

lemma edgeListPolicy_drop_match_errors:
  "edgeListPolicy (drop_match_errors D) config r w = edgeListPolicy D config r w"
  unfolding edgeListPolicy_def edge_list_loop_drop_match_errors drop_match_errors_simps
  by (rule refl)

text \<open>
  Claim C9. Both list handlers drop the error of \<open>path.Match\<close>: what they do is what they
  would do if no match ever returned an error, so an error of matching is never the error
  of the handler. A name whose match returns \<open>(false, err)\<close>, as a malformed pattern does
  for every name, is skipped like a name that does not match: for a request that gets as
  far as the loop over a store whose names all fail to match in this way, with the
  iterator closing without error, the handler returns no error and only writes
  \<open>StatusOK\<close>, nothing to the body.
\<close>

theorem list_match_errors_dropped:
  "listPolicy D r s = listPolicy (drop_match_errors D) r s
   \<and> edgeListPolicy D config r w = edgeListPolicy (drop_match_errors D) config r w
   \<and> (patternFromRequest D r list_APIPath = Inr pattern
      \<and> (\<forall>n \<in> set (Names it). \<exists>err. Match D pattern n = (False, Some err))
      \<and> CloseErr it = None
      \<longrightarrow> (enclaveFromRequest D (Vault s) r = Inr enclave
           \<and> VerifyRequest D (Enclaves (Vault s) enclave) r = None
           \<and> ListPolicies D (Enclaves (Vault s) enclave) = Inr it
           \<longrightarrow> fst (listPolicy D r s) = None
             \<and> W (snd (listPolicy D r s)) = WriteHeader StatusOK (W s))
        \<and> (auth_VerifyRequest config r = None \<and> Policies_List config = Inr it
           \<longrightarrow> edgeListPolicy D config r w =
                 (None, WriteHeader StatusOK (HeaderSetContentType ndjson w))))"
proof -
  have a: "fst (listPolicy D r s) = None
         \<and> W (snd (listPolicy D r s)) = WriteHeader StatusOK (W s)"
    if "patternFromRequest D r list_APIPath = Inr pattern"
      "\<forall>n \<in> set (Names it). \<exists>err. Match D pattern n = (False, Some err)"
      "CloseErr it = None"
      "enclaveFromRequest D (Vault s) r = Inr enclave"
      "VerifyRequest D (Enclaves (Vault s) enclave) r = None"
      "ListPolicies D (Enclaves (Vault s) enclave) = Inr it"
  proof -
    have "\<forall>n \<in> set (Names it). \<not> matches D pattern n"
      using that(2) by (auto simp: matches_def)
    then show ?thesis
      using listPolicy_no_match[OF that(1,4,5,6)] that(3) by simp
  qed
  have b: "edgeListPolicy D config r w =
             (None, WriteHeader StatusOK (HeaderSetContentType ndjson w))"
    if "patternFromRequest D r list_APIPath = Inr pattern"
      "\<forall>n \<in> set (Names it). \<exists>err. Match D pattern n = (False, Some err)"
      "CloseErr it = None"
      "auth_VerifyRequest config r = None" "Policies_List config = Inr it"
  proof -
    have "\<forall>n \<in> set (Names it). \<not> matches D pattern n"
      using that(2) by (auto simp: matches_def)
    then show ?thesis
      using edgeListPolicy_no_match[OF that(1,4,5), of w] that(3) by simp
  qed
  show ?thesis
    using a b listPolicy_drop_match_errors[of D r s]
      edgeListPolicy_drop_match_errors[of D config r w]
    by simp
qed

theorem list_match_errors_dropped_witness:
  "Match mem ''['' ''p1'' = (False, Some (Failure ''syntax error in pattern''))
   \<and> Match mem ''['' ''p2'' = (False, Some (Failure ''syntax error in pattern''))
   \<and> fst (listPolicy mem (list_request ''['') (world0 ''admin'' enclave1 100)) = None
   \<and> W (snd (listPolicy mem (list_request ''['') (world0 ''admin'' enclave1 100))) =
       \<lparr>ContentType = None, Status = Some StatusOK, Body = [], Faults = []\<rparr>
   \<and> edgeListPolicy mem (mem_edge mem enclave1) (list_request ''['') NewWriter =
       (None, \<lparr>ContentType = Some ''application/x-ndjson'', Status = Some StatusOK,
               Body = [], Faults = []\<rparr>)"
proof -
  let ?s = "world0 ''admin'' enclave1 100"
  let ?it = "\<lparr>Names = [''p1'', ''p2''], CloseErr = None\<rparr>"
  let ?r = "list_request ''[''"
  have h: "patternFromRequest mem ?r list_APIPath = Inr ''[''
      \<and> (\<forall>n \<in> set (Names ?it). \<exists>err. Match mem ''['' n = (False, Some err))
      \<and> CloseErr ?it = None"
    "enclaveFromRequest mem (Vault ?s) ?r = Inr 0
      \<and> VerifyRequest mem (Enclaves (Vault ?s) 0) ?r = None
      \<and> ListPolicies mem (Enclaves (Vault ?s) 0) = Inr ?it"
    "auth_VerifyRequest (mem_edge mem enclave1) ?r = None
      \<and> Policies_List (mem_edge mem enclave1) = Inr ?it"
    by (simp_all add: mem_defs list_request_def list_APIPath_def)
  have w: "WriteHeader StatusOK (W ?s) =
      \<lparr>ContentType = None, Status = Some StatusOK, Body = [], Faults = []\<rparr>"
    "WriteHeader StatusOK (HeaderSetContentType ndjson NewWriter) =
      \<lparr>ContentType = Some ''application/x-ndjson'', Status = Some StatusOK,
       Body = [], Faults = []\<rparr>"
    by (simp_all add: mem_defs WriteHeader_def HeaderSetContentType_def ndjson_def)
  note t = list_match_errors_dropped[where D = mem and r = ?r and s = ?s and pattern = "''[''"
      and it = ?it and enclave = 0 and config = "mem_edge mem enclave1" and w = NewWriter]
  have a: "fst (listPolicy mem ?r ?s) = None"
    "W (snd (listPolicy mem ?r ?s)) = WriteHeader StatusOK (W ?s)"
    "edgeListPolicy mem (mem_edge mem enclave1) ?r NewWriter =
       (None, WriteHeader StatusOK (HeaderSetContentType ndjson NewWriter))"
    using t h by blast+
  have m: "Match mem ''['' ''p1'' = (False, Some (Failure ''syntax error in pattern''))"
    "Match mem ''['' ''p2'' = (False, Some (Failure ''syntax error in pattern''))"
    by (simp_all add: mem_defs)
  show ?thesis
    using a m unfolding w by simp
qed

section \<open>Describe and read: success once the policy is found\<close>

lemma lookup_synced_found:
  assumes "enclaveFromRequest D (Vault s) r = Inr enclave"
    and "VerifyRequest D (Enclaves (Vault s) enclave) r = None"
    and "GetPolicy D (Enclaves (Vault s) enclave) name = Inr policy"
  shows "fst (lookup_synced D r name s) = Inr policy"
    and "W (snd (lookup_synced D r name s)) = W s"
    and "Vault (snd (lookup_synced D r name s)) = Vault s"
  using assms
  by (simp_all add: lookup_synced_def lookup_locked_def VSync_apply enclave_VerifyRequest_def
      enclave_GetPolicy_def)

lemma Encode_fails:
  "Faults w = Some err # fs \<Longrightarrow>
     fst (Encode v w) = Some err \<and> Body (snd (Encode v w)) = Body w"
  by (simp add: Encode_def WriteHeader_def Let_def)

lemma describePolicy_found:
  assumes "nameFromRequest D r describe_APIPath = Inr name"
    and "enclaveFromRequest D (Vault s) r = Inr enclave"
    and "VerifyRequest D (Enclaves (Vault s) enclave) r = None"
    and "GetPolicy D (Enclaves (Vault s) enclave) name = Inr policy"
  shows "fst (describePolicy D r s) = None"
    and "W (snd (describePolicy D r s)) =
           snd (Encode (DescribeResponse (CreatedAt policy) (CreatedBy policy))
                  (WriteHeader StatusOK (HeaderSetContentType ''application/json'' (W s))))"
  using assms(1) lookup_synced_found[OF assms(2-4)]
  by (auto simp: describePolicy_def Let_def split: prod.splits sum.splits)

lemma readPolicy_found:
  assumes "nameFromRequest D r read_APIPath = Inr name"
    and "enclaveFromRequest D (Vault s) r = Inr enclave"
    and "VerifyRequest D (Enclaves (Vault s) enclave) r = None"
    and "GetPolicy D (Enclaves (Vault s) enclave) name = Inr policy"
  shows "fst (readPolicy D r s) = None"
    and "W (snd (readPolicy D r s)) =
           snd (Encode (ReadResponse (Allow policy) (Deny policy)
                          (CreatedAt policy) (CreatedBy policy))
                  (WriteHeader StatusOK (HeaderSetContentType ''application/json'' (W s))))"
  using assms(1) lookup_synced_found[OF assms(2-4)]
  by (auto simp: readPolicy_def Let_def split: prod.splits sum.splits)

lemma committed_json:
  assumes "Status w = None"
  shows "Status (snd (Encode v (WriteHeader StatusOK (HeaderSetContentType ct w)))) = Some StatusOK"
    and "ContentType (snd (Encode v (WriteHeader StatusOK (HeaderSetContentType ct w)))) = Some ct"
    and "Faults w = Some err # fs \<Longrightarrow>
           fst (Encode v (WriteHeader StatusOK (HeaderSetContentType ct w))) = Some err
           \<and> Body (snd (Encode v (WriteHeader StatusOK (HeaderSetContentType ct w)))) = Body w"
  using assms
  by (simp_all add: Encode_header Encode_fails WriteHeader_def HeaderSetContentType_def)

text \<open>
  Claim C10. Once the lookup of the policy has succeeded (the name is valid, the enclave
  resolves, the request verifies and the policy is found), \<open>describePolicy\<close> and
  \<open>readPolicy\<close> return no error whatever the connection does: they set the content type,
  write \<open>StatusOK\<close> and encode the response, and what \<open>Encode\<close> returns is dropped. In
  particular, when the write of the body fails, nothing reaches the body and the handler
  still returns no error, with \<open>StatusOK\<close> as the status of a response that had none.
\<close>

theorem describe_read_always_succeed:
  assumes "enclaveFromRequest D (Vault s) r = Inr enclave"
    and "VerifyRequest D (Enclaves (Vault s) enclave) r = None"
    and "GetPolicy D (Enclaves (Vault s) enclave) name = Inr policy"
    and "w2 = WriteHeader StatusOK (HeaderSetContentType ''application/json'' (W s))"
  shows "(nameFromRequest D r describe_APIPath = Inr name \<longrightarrow>
            fst (describePolicy D r s) = None
            \<and> W (snd (describePolicy D r s)) =
                snd (Encode (DescribeResponse (CreatedAt policy) (CreatedBy policy)) w2)
            \<and> (Status (W s) = None \<longrightarrow>
                 Status (W (snd (describePolicy D r s))) = Some StatusOK)
            \<and> (Status (W s) = None \<and> Faults (W s) = Some err # fs \<longrightarrow>
                 fst (Encode (DescribeResponse (CreatedAt policy) (CreatedBy policy)) w2) = Some err
                 \<and> Body (W (snd (describePolicy D r s))) = Body (W s)))
       \<and> (nameFromRequest D r read_APIPath = Inr name \<longrightarrow>
            fst (readPolicy D r s) = None
            \<and> W (snd (readPolicy D r s)) =
                snd (Encode (ReadResponse (Allow policy) (Deny policy)
                               (CreatedAt policy) (CreatedBy policy)) w2)
            \<and> (Status (W s) = None \<longrightarrow>
                 Status (W (snd (readPolicy D r s))) = Some StatusOK)
            \<and> (Status (W s) = None \<and> Faults (W s) = Some err # fs \<longrightarrow>
                 fst (Encode (ReadResponse (Allow policy) (Deny policy)
                                (CreatedAt policy) (CreatedBy policy)) w2) = Some err
                 \<and> Body (W (snd (readPolicy D r s))) = Body (W s)))
       \<and> (auth_VerifyRequest config r = None \<and> Policies_Get config name = Inr policy \<longrightarrow>
            (nameFromRequest D r describe_APIPath = Inr name \<longrightarrow>
               fst (edgeDescribePolicy D config r (W s)) = None)
            \<and> (nameFromRequest D r read_APIPath = Inr name \<longrightarrow>
               fst (edgeReadPolicy D config r (W s)) = None))"
proof -
  have e: "fst (edgeDescribePolicy D config r (W s)) = None"
    if "auth_VerifyRequest config r = None" "Policies_Get config name = Inr policy"
      "nameFromRequest D r describe_APIPath = Inr name"
    using that by (simp add: edgeDescribePolicy_def Let_def split: prod.splits)
  have er: "fst (edgeReadPolicy D config r (W s)) = None"
    if "auth_VerifyRequest config r = None" "Policies_Get config name = Inr policy"
      "nameFromRequest D r read_APIPath = Inr name"
    using that by (simp add: edgeReadPolicy_def Let_def split: prod.splits)
  have d: "fst (describePolicy D r s) = None"
    "W (snd (describePolicy D r s)) =
       snd (Encode (DescribeResponse (CreatedAt policy) (CreatedBy policy)) w2)"
    if "nameFromRequest D r describe_APIPath = Inr name"
    using describePolicy_found[OF that assms(1-3)] assms(4) by simp_all
  have rd: "fst (readPolicy D r s) = None"
    "W (snd (readPolicy D r s)) =
       snd (Encode (ReadResponse (Allow policy) (Deny policy)
                      (CreatedAt policy) (CreatedBy policy)) w2)"
    if "nameFromRequest D r read_APIPath = Inr name"
    using readPolicy_found[OF that assms(1-3)] assms(4) by simp_all
  show ?thesis
    using d rd e er committed_json[of "W s"] unfolding assms(4) by auto
qed


theorem describe_read_always_succeed_witness:
  "fst (Encode (DescribeResponse 7 ''root'')
          \<lparr>ContentType = Some ''application/json'', Status = Some StatusOK, Body = [],
           Faults = [Some (Failure ''write: broken pipe'')]\<rparr>) =
     Some (Failure ''write: broken pipe'')
   \<and> outcome (describePolicy mem describe_request
        ((world0 ''admin'' enclave1 100)
           \<lparr>W := NewWriter\<lparr>Faults := [Some (Failure ''write: broken pipe'')]\<rparr>\<rparr>)) =
       (None, \<lparr>ContentType = Some ''application/json'', Status = Some StatusOK, Body = [],
               Faults = []\<rparr>)
   \<and> outcome (readPolicy mem read_request (world0 ''admin'' enclave1 100)) =
       (None, \<lparr>ContentType = Some ''application/json'', Status = Some StatusOK,
               Body = [ReadResponse [''/v1/key/read/*''] [] 7 ''root''], Faults = []\<rparr>)
   \<and> fst (edgeDescribePolicy mem (mem_edge mem enclave1) describe_request NewWriter) = None"
proof -
  let ?broken = "NewWriter\<lparr>Faults := [Some (Failure ''write: broken pipe'')]\<rparr>"
  let ?s = "(world0 ''admin'' enclave1 100)\<lparr>W := ?broken\<rparr>"
  let ?s' = "world0 ''admin'' enclave1 100"
  let ?w2 = "\<lparr>ContentType = Some ''application/json'', Status = Some StatusOK, Body = [],
           Faults = [Some (Failure ''write: broken pipe'')]\<rparr>"
  let ?w2' = "\<lparr>ContentType = Some ''application/json'', Status = Some StatusOK, Body = [],
           Faults = []\<rparr>"
  have h: "enclaveFromRequest mem (Vault ?s) describe_request = Inr 0"
    "VerifyRequest mem (Enclaves (Vault ?s) 0) describe_request = None"
    "GetPolicy mem (Enclaves (Vault ?s) 0) ''p1'' = Inr policy1"
    "?w2 = WriteHeader StatusOK (HeaderSetContentType ''application/json'' (W ?s))"
    by (simp_all add: mem_defs describe_request_def WriteHeader_def HeaderSetContentType_def)
  have n: "nameFromRequest mem describe_request describe_APIPath = Inr ''p1''"
    "Status (W ?s) = None \<and> Faults (W ?s) = Some (Failure ''write: broken pipe'') # []"
    by (simp_all add: mem_defs describe_request_def describe_APIPath_def)
  have h': "enclaveFromRequest mem (Vault ?s') read_request = Inr 0"
    "VerifyRequest mem (Enclaves (Vault ?s') 0) read_request = None"
    "GetPolicy mem (Enclaves (Vault ?s') 0) ''p1'' = Inr policy1"
    "?w2' = WriteHeader StatusOK (HeaderSetContentType ''application/json'' (W ?s'))"
    by (simp_all add: mem_defs read_request_def WriteHeader_def HeaderSetContentType_def)
  have n': "nameFromRequest mem read_request read_APIPath = Inr ''p1''"
    by (simp add: mem_defs read_request_def read_APIPath_def)
  have h'': "enclaveFromRequest mem (Vault ?s') describe_request = Inr 0"
    "VerifyRequest mem (Enclaves (Vault ?s') 0) describe_request = None"
    by (simp_all add: mem_defs describe_request_def)
  have e: "auth_VerifyRequest (mem_edge mem enclave1) describe_request = None
      \<and> Policies_Get (mem_edge mem enclave1) ''p1'' = Inr policy1"
    "nameFromRequest mem describe_request describe_APIPath = Inr ''p1''"
    "W ?s' = NewWriter"
    by (simp_all add: mem_defs describe_request_def describe_APIPath_def)
  note t = describe_read_always_succeed[OF h, where err = "Failure ''write: broken pipe''"
      and fs = "[]"]
  have a: "fst (Encode (DescribeResponse (CreatedAt policy1) (CreatedBy policy1)) ?w2) =
             Some (Failure ''write: broken pipe'')"
    "fst (describePolicy mem describe_request ?s) = None"
    "W (snd (describePolicy mem describe_request ?s)) =
       snd (Encode (DescribeResponse (CreatedAt policy1) (CreatedBy policy1)) ?w2)"
    using t n by blast+
  note t' = describe_read_always_succeed[OF h']
  have b: "fst (readPolicy mem read_request ?s') = None"
    "W (snd (readPolicy mem read_request ?s')) =
       snd (Encode (ReadResponse (Allow policy1) (Deny policy1)
                      (CreatedAt policy1) (CreatedBy policy1)) ?w2')"
    using t' n' by blast+
  note t'' = describe_read_always_succeed[OF h''(1,2) h'(3,4),
      where config = "mem_edge mem enclave1"]
  have c: "fst (edgeDescribePolicy mem (mem_edge mem enclave1) describe_request NewWriter) = None"
    using t'' e by simp
  show ?thesis
    using a b c
    by (simp add: outcome_def policy1_def Encode_def WriteHeader_def)
qed

section \<open>Writing a policy\<close>

lemma writePolicy_success:
  assumes "nameFromRequest D r write_APIPath = Inr name"
    and "enclaveFromRequest D (Vault s) r = Inr enclave"
    and "fst (writePolicy D r s) = None"
  shows "\<exists>allow deny e'.
           DecodeWrite D r = Inr (allow, deny)
           \<and> VerifyRequest D (Enclaves (Vault s) enclave) r = None
           \<and> SetPolicy D (Enclaves (Vault s) enclave) name
                \<lparr>Allow = allow, Deny = deny, CreatedAt = Clock s, CreatedBy = Identify D r\<rparr> =
               (None, e')
           \<and> Vault (snd (writePolicy D r s)) = (Vault s)\<lparr>Enclaves := (Enclaves (Vault s))(enclave := e')\<rparr>
           \<and> Status (W (snd (writePolicy D r s))) =
               (case Status (W s) of None \<Rightarrow> Some StatusOK | Some c \<Rightarrow> Some c)"
  using assms
  by (auto simp: writePolicy_def Sync_apply write_locked_def enclave_VerifyRequest_def
      enclave_SetPolicy_def store_def emit_def WriteHeader_def
      split: sum.splits option.splits prod.splits)


lemma mem_store_law:
  "\<forall>e n p e'. SetPolicy mem e n p = (None, e') \<longrightarrow> GetPolicy mem e' n = Inr p"
  by (auto simp: mem_def mem_SetPolicy_def mem_GetPolicy_def update_conv')

lemma mem_write_succeeds:
  "peer \<noteq> [] \<Longrightarrow> fst (writePolicy mem (write_request peer allow deny) s) = None"
  by (simp add: writePolicy_def write_locked_def Sync_apply enclave_VerifyRequest_def
      enclave_SetPolicy_def store_def mem_def mem_nameFromRequest_def mem_verifyName_def
      mem_enclaveFromRequest_def mem_DecodeWrite_def mem_VerifyRequest_def mem_SetPolicy_def
      IsUnknown_def IdentityUnknown_def write_request_def write_APIPath_def)

text \<open>
  Claim C6. Take a store in which a policy set under a name is what a later get of that
  name returns. After a successful write request, what is stored under the requested name
  is the policy made of the allow and deny lists of the request body, the time of the
  write and the identity of the requester, whatever was stored there before. So when a
  second write of the same name succeeds, the policy read back is the one of the second
  request, with the time and the requester of the second write.
\<close>

theorem write_replaces_policy:
  assumes "\<forall>e n p e'. SetPolicy D e n p = (None, e') \<longrightarrow> GetPolicy D e' n = Inr p"
    and "nameFromRequest D r write_APIPath = Inr name"
    and "enclaveFromRequest D (Vault s) r = Inr enclave"
    and "DecodeWrite D r = Inr (allow, deny)"
    and "fst (writePolicy D r s) = None"
  shows "GetPolicy D (Enclaves (Vault (snd (writePolicy D r s))) enclave) name =
           Inr \<lparr>Allow = allow, Deny = deny, CreatedAt = Clock s, CreatedBy = Identify D r\<rparr>
       \<and> (nameFromRequest D r2 write_APIPath = Inr name
            \<and> Vault s2 = Vault (snd (writePolicy D r s))
            \<and> enclaveFromRequest D (Vault s2) r2 = Inr enclave
            \<and> DecodeWrite D r2 = Inr (allow2, deny2)
            \<and> fst (writePolicy D r2 s2) = None
          \<longrightarrow> GetPolicy D (Enclaves (Vault (snd (writePolicy D r2 s2))) enclave) name =
                Inr \<lparr>Allow = allow2, Deny = deny2, CreatedAt = Clock s2,
                     CreatedBy = Identify D r2\<rparr>)"
proof -
  have once: "GetPolicy D (Enclaves (Vault (snd (writePolicy D r' s'))) enclave) name =
      Inr \<lparr>Allow = a, Deny = d, CreatedAt = Clock s', CreatedBy = Identify D r'\<rparr>"
    if h: "nameFromRequest D r' write_APIPath = Inr name"
      "enclaveFromRequest D (Vault s') r' = Inr enclave"
      "DecodeWrite D r' = Inr (a, d)" "fst (writePolicy D r' s') = None"
    for r' s' a d
  proof -
    obtain e' where e': "SetPolicy D (Enclaves (Vault s') enclave) name
          \<lparr>Allow = a, Deny = d, CreatedAt = Clock s', CreatedBy = Identify D r'\<rparr> = (None, e')"
      "Vault (snd (writePolicy D r' s')) =
         (Vault s')\<lparr>Enclaves := (Enclaves (Vault s'))(enclave := e')\<rparr>"
      using writePolicy_success[OF h(1,2,4)] h(3) by auto
    show ?thesis
      using assms(1) e' by simp
  qed
  show ?thesis
    using once[OF assms(2-5)] once[of r2 s2 allow2 deny2] by blast
qed

theorem write_replaces_policy_witness:
  "fst (writePolicy mem (write_request ''alice'' [''/v1/key/*''] [])
          (world0 ''admin'' enclave1 100)) = None
   \<and> GetPolicy mem
       (Enclaves (Vault (snd (writePolicy mem (write_request ''alice'' [''/v1/key/*''] [])
                                (world0 ''admin'' enclave1 100)))) 0) ''p1'' =
       Inr \<lparr>Allow = [''/v1/key/*''], Deny = [], CreatedAt = 100, CreatedBy = ''alice''\<rparr>
   \<and> GetPolicy mem
       (Enclaves (Vault (snd (writePolicy mem (write_request ''bob'' [] [''/v1/key/delete/*''])
          ((snd (writePolicy mem (write_request ''alice'' [''/v1/key/*''] [])
                   (world0 ''admin'' enclave1 100)))\<lparr>Clock := 200, W := NewWriter\<rparr>)))) 0) ''p1'' =
       Inr \<lparr>Allow = [], Deny = [''/v1/key/delete/*''], CreatedAt = 200, CreatedBy = ''bob''\<rparr>"
proof -
  let ?r = "write_request ''alice'' [''/v1/key/*''] []"
  let ?s = "world0 ''admin'' enclave1 100"
  let ?r2 = "write_request ''bob'' [] [''/v1/key/delete/*'']"
  let ?s2 = "(snd (writePolicy mem ?r ?s))\<lparr>Clock := 200, W := NewWriter\<rparr>"
  have h: "nameFromRequest mem ?r write_APIPath = Inr ''p1''"
    "enclaveFromRequest mem (Vault ?s) ?r = Inr 0"
    "DecodeWrite mem ?r = Inr ([''/v1/key/*''], [])"
    by (simp_all add: mem_defs write_request_def write_APIPath_def)
  have ok: "fst (writePolicy mem ?r ?s) = None"
    by (simp add: mem_write_succeeds)
  have h2: "nameFromRequest mem ?r2 write_APIPath = Inr ''p1''"
    "Vault ?s2 = Vault (snd (writePolicy mem ?r ?s))"
    "enclaveFromRequest mem (Vault ?s2) ?r2 = Inr 0"
    "DecodeWrite mem ?r2 = Inr ([], [''/v1/key/delete/*''])"
    by (simp_all add: mem_defs write_request_def write_APIPath_def)
  have ok2: "fst (writePolicy mem ?r2 ?s2) = None"
    by (simp add: mem_write_succeeds)
  have c: "Clock ?s = 100" "Clock ?s2 = 200" "Identify mem ?r = ''alice''"
    "Identify mem ?r2 = ''bob''"
    by (simp_all add: mem_defs write_request_def)
  show ?thesis
    using write_replaces_policy[OF mem_store_law h ok, of ?r2 ?s2 "[]" "[''/v1/key/delete/*'']"]
      h2 ok ok2 unfolding c by blast
qed

section \<open>The lock discipline\<close>

lemma calls_of_append: "calls_of (t @ u) = calls_of t @ calls_of u"
  by (induction t rule: calls_of.induct) simp_all

lemma calls_of_map_Call: "calls_of (map Call cs) = cs"
  by (induction cs) simp_all

lemma lock_discipline_locked:
  "lock_discipline (Inr name) (Inr enclave) lk
     (locked_trace (lk enclave) (''VerifyRequest'' # cs))"
  by (simp add: lock_discipline_def locked_trace_def calls_of_append calls_of_map_Call)

lemma VSync_Sync: "VSync l f s = Sync l f s"
  by (simp add: VSync_def Sync_def)

text \<open>
  The shape all six handlers share: the closure under the vault read lock resolves the
  enclave and runs \<open>body\<close> under the enclave lock.
\<close>

lemma locked_region_trace:
  assumes "\<And>enclave s'. \<exists>cs. Trace (snd (body enclave s')) =
             Trace s' @ map Call (''VerifyRequest'' # cs)"
  shows "\<exists>t. Trace (snd (Sync VaultRLocker
                  (\<lambda>s. case enclaveFromRequest D (Vault s) r of
                          Inl err \<Rightarrow> (failed err, s)
                        | Inr enclave \<Rightarrow> Sync (lk enclave) (body enclave) s) s)) = Trace s @ t
       \<and> lock_discipline (Inr name) (enclaveFromRequest D (Vault s) r) lk t"
proof (cases "enclaveFromRequest D (Vault s) r")
  case (Inl err)
  then show ?thesis
    by (simp add: Sync_apply lock_discipline_def)
next
  case (Inr enclave)
  let ?s = "emit (Lock (lk enclave)) (emit (Lock VaultRLocker) s)"
  obtain cs where "Trace (snd (body enclave ?s)) = Trace ?s @ map Call (''VerifyRequest'' # cs)"
    using assms by blast
  then have "Trace (snd (Sync VaultRLocker
                  (\<lambda>s. case enclaveFromRequest D (Vault s) r of
                          Inl err \<Rightarrow> (failed err, s)
                        | Inr enclave \<Rightarrow> Sync (lk enclave) (body enclave) s) s)) =
      Trace s @ locked_trace (lk enclave) (''VerifyRequest'' # cs)"
    using Inr by (simp add: Sync_apply locked_trace_def)
  then show ?thesis
    using Inr lock_discipline_locked[of name enclave lk cs] by auto
qed

lemma assign_locked_trace:
  "\<exists>cs. Trace (snd (assign_locked D r name enclave s)) =
        Trace s @ map Call (''VerifyRequest'' # cs)"
  by (auto simp: assign_locked_def enclave_VerifyRequest_def Vault_Admin_def
      enclave_AssignPolicy_def store_def emit_def
      split: option.splits sum.splits prod.splits
      intro: exI[of _ "[]"] exI[of _ "[''Admin'']"] exI[of _ "[''Admin'', ''AssignPolicy'']"])

lemma write_locked_trace:
  "\<exists>cs. Trace (snd (write_locked D r name enclave s)) =
        Trace s @ map Call (''VerifyRequest'' # cs)"
  by (auto simp: write_locked_def enclave_VerifyRequest_def enclave_SetPolicy_def store_def
      emit_def split: option.splits sum.splits prod.splits
      intro: exI[of _ "[]"] exI[of _ "[''SetPolicy'']"])

lemma delete_locked_trace:
  "\<exists>cs. Trace (snd (delete_locked D r name enclave s)) =
        Trace s @ map Call (''VerifyRequest'' # cs)"
  by (auto simp: delete_locked_def enclave_VerifyRequest_def enclave_DeletePolicy_def store_def
      emit_def split: option.splits sum.splits prod.splits
      intro: exI[of _ "[]"] exI[of _ "[''DeletePolicy'']"])

lemma lookup_locked_trace:
  "\<exists>cs. Trace (snd (lookup_locked D r name enclave s)) =
        Trace s @ map Call (''VerifyRequest'' # cs)"
  by (auto simp: lookup_locked_def enclave_VerifyRequest_def enclave_GetPolicy_def
      emit_def split: option.splits sum.splits prod.splits
      intro: exI[of _ "[]"] exI[of _ "[''GetPolicy'']"])

lemma list_loop_trace:
  "\<exists>cs. Trace (snd (list_loop D enclave pattern xs hw s)) = Trace s @ map Call cs"
proof (induction xs arbitrary: hw s)
  case Nil
  show ?case by (simp add: exI[of _ "[]"])
next
  case (Cons x xs)
  show ?case
  proof (cases "matches D pattern x")
    case False
    then show ?thesis
      using Cons.IH by (simp add: list_loop_Cons_skip)
  next
    case True
    let ?s1 = "if hw then s else s\<lparr>W := commit (W s)\<rparr>"
    have one: "\<exists>cs. Trace (emit (Call ''GetPolicy'') ?s1\<lparr>W := w\<rparr>) = Trace s @ map Call cs" for w
      by (auto intro: exI[of _ "[''GetPolicy'']"])
    have more: "\<exists>cs. Trace (snd (list_loop D enclave pattern xs True
                  (emit (Call ''GetPolicy'') ?s1\<lparr>W := w\<rparr>))) = Trace s @ map Call cs" for w
    proof -
      obtain cs where "Trace (snd (list_loop D enclave pattern xs True
                  (emit (Call ''GetPolicy'') ?s1\<lparr>W := w\<rparr>))) =
          Trace (emit (Call ''GetPolicy'') ?s1\<lparr>W := w\<rparr>) @ map Call cs"
        using Cons.IH by blast
      then show ?thesis
        by (auto intro: exI[of _ "''GetPolicy'' # cs"])
    qed
    show ?thesis
      using True one more
      by (auto simp: list_loop_Cons_match Let_def split: sum.splits option.splits prod.splits
          intro: exI[of _ "[''GetPolicy'']"])
  qed
qed

lemma list_locked_trace:
  "\<exists>cs. Trace (snd (list_locked D r pattern enclave s)) =
        Trace s @ map Call (''VerifyRequest'' # cs)"
proof (cases "VerifyRequest D (Enclaves (Vault s) enclave) r")
  case (Some err)
  then show ?thesis
    by (simp add: list_locked_def enclave_VerifyRequest_def)
next
  case None
  show ?thesis
  proof (cases "ListPolicies D (Enclaves (Vault s) enclave)")
    case (Inl err)
    then show ?thesis
      using None
      by (auto simp: list_locked_def enclave_VerifyRequest_def enclave_ListPolicies_def
          intro: exI[of _ "[''ListPolicies'']"])
  next
    case (Inr it)
    let ?s2 = "emit (Call ''ListPolicies'') (emit (Call ''VerifyRequest'') s)"
    obtain cs where cs: "Trace (snd (list_loop D enclave pattern (Names it) False ?s2)) =
        Trace ?s2 @ map Call cs"
      using list_loop_trace by blast
    have "Trace (snd (list_locked D r pattern enclave s)) =
            Trace s @ map Call (''VerifyRequest'' # ''ListPolicies'' # cs @ [''Close''])
        \<or> Trace (snd (list_locked D r pattern enclave s)) =
            Trace s @ map Call (''VerifyRequest'' # ''ListPolicies'' # cs @ [''Close'', ''Close''])"
      using None Inr cs
      by (auto simp: list_locked_def enclave_VerifyRequest_def enclave_ListPolicies_def
          iterator_Close_def Let_def split: sum.splits prod.splits)
    then show ?thesis
      by blast
  qed
qed


lemma assignPolicy_trace:
  "\<exists>t. Trace (snd (assignPolicy D r s)) = Trace s @ t
       \<and> lock_discipline (nameFromRequest D r assign_APIPath)
            (enclaveFromRequest D (Vault s) r) EnclaveLocker t"
proof (cases "nameFromRequest D r assign_APIPath")
  case (Inl err)
  then show ?thesis
    by (simp add: assignPolicy_def lock_discipline_def)
next
  case (Inr name)
  then show ?thesis
    using locked_region_trace[where body = "assign_locked D r name" and D = D and r = r and failed = Some
        and s = s and lk = EnclaveLocker and name = name, OF assign_locked_trace]
    by (auto simp: assignPolicy_def split: prod.splits option.splits)
qed

lemma writePolicy_trace:
  "\<exists>t. Trace (snd (writePolicy D r s)) = Trace s @ t
       \<and> lock_discipline (nameFromRequest D r write_APIPath)
            (enclaveFromRequest D (Vault s) r) EnclaveLocker t"
proof (cases "nameFromRequest D r write_APIPath")
  case (Inl err)
  then show ?thesis
    by (simp add: writePolicy_def lock_discipline_def)
next
  case (Inr name)
  then show ?thesis
    using locked_region_trace[where body = "write_locked D r name" and D = D and r = r and failed = Some
        and s = s and lk = EnclaveLocker and name = name, OF write_locked_trace]
    by (auto simp: writePolicy_def split: prod.splits option.splits)
qed

lemma deletePolicy_trace:
  "\<exists>t. Trace (snd (deletePolicy D r s)) = Trace s @ t
       \<and> lock_discipline (nameFromRequest D r delete_APIPath)
            (enclaveFromRequest D (Vault s) r) EnclaveLocker t"
proof (cases "nameFromRequest D r delete_APIPath")
  case (Inl err)
  then show ?thesis
    by (simp add: deletePolicy_def lock_discipline_def)
next
  case (Inr name)
  then show ?thesis
    using locked_region_trace[where body = "delete_locked D r name" and D = D and r = r and failed = Some
        and s = s and lk = EnclaveLocker and name = name, OF delete_locked_trace]
    by (auto simp: deletePolicy_def split: prod.splits option.splits)
qed

lemma lookup_synced_trace:
  "\<exists>t. Trace (snd (lookup_synced D r name s)) = Trace s @ t
       \<and> lock_discipline (Inr name) (enclaveFromRequest D (Vault s) r) EnclaveRLocker t"
  unfolding lookup_synced_def VSync_Sync
  using locked_region_trace[where body = "lookup_locked D r name" and D = D and r = r and failed = Inl
        and s = s and lk = EnclaveRLocker and name = name, OF lookup_locked_trace] .

lemma describePolicy_trace:
  "\<exists>t. Trace (snd (describePolicy D r s)) = Trace s @ t
       \<and> lock_discipline (nameFromRequest D r describe_APIPath)
            (enclaveFromRequest D (Vault s) r) EnclaveRLocker t"
proof (cases "nameFromRequest D r describe_APIPath")
  case (Inl err)
  then show ?thesis
    by (simp add: describePolicy_def lock_discipline_def)
next
  case (Inr name)
  then show ?thesis
    using lookup_synced_trace[of D r name s]
    by (auto simp: describePolicy_def Let_def split: prod.splits sum.splits)
qed

lemma readPolicy_trace:
  "\<exists>t. Trace (snd (readPolicy D r s)) = Trace s @ t
       \<and> lock_discipline (nameFromRequest D r read_APIPath)
            (enclaveFromRequest D (Vault s) r) EnclaveRLocker t"
proof (cases "nameFromRequest D r read_APIPath")
  case (Inl err)
  then show ?thesis
    by (simp add: readPolicy_def lock_discipline_def)
next
  case (Inr name)
  then show ?thesis
    using lookup_synced_trace[of D r name s]
    by (auto simp: readPolicy_def Let_def split: prod.splits sum.splits)
qed

lemma listPolicy_trace:
  "\<exists>t. Trace (snd (listPolicy D r s)) = Trace s @ t
       \<and> lock_discipline (patternFromRequest D r list_APIPath)
            (enclaveFromRequest D (Vault s) r) EnclaveRLocker t"
proof (cases "patternFromRequest D r list_APIPath")
  case (Inl err)
  then show ?thesis
    by (simp add: listPolicy_def lock_discipline_def)
next
  case (Inr pattern)
  then show ?thesis
    using locked_region_trace[where body = "list_locked D r pattern" and D = D and r = r
        and failed = "\<lambda>err. (False, Some err)" and s = s and lk = EnclaveRLocker
        and name = pattern, OF list_locked_trace]
    unfolding listPolicy_def VSync_Sync
    by (auto split: prod.splits option.splits)
qed

text \<open>
  Claim C7. Each of the six policy operations on an enclave adds to the trace of lock
  operations and collaborator calls: nothing, when the name or pattern of the request is
  rejected before any lock is taken; the vault read lock alone, taken and released, when
  no enclave resolves; and otherwise the vault read lock, then the lock of the resolved
  enclave (its write lock in assign, write and delete, its read lock in describe, read and
  list), then collaborator calls only, the first of which is \<open>VerifyRequest\<close>, then the
  enclave lock and the vault lock released in this order. This holds on every path,
  whatever the collaborators return.
\<close>

theorem handlers_follow_lock_discipline:
  "(\<exists>t. Trace (snd (assignPolicy D r s)) = Trace s @ t
        \<and> lock_discipline (nameFromRequest D r assign_APIPath)
             (enclaveFromRequest D (Vault s) r) EnclaveLocker t)
   \<and> (\<exists>t. Trace (snd (writePolicy D r s)) = Trace s @ t
        \<and> lock_discipline (nameFromRequest D r write_APIPath)
             (enclaveFromRequest D (Vault s) r) EnclaveLocker t)
   \<and> (\<exists>t. Trace (snd (deletePolicy D r s)) = Trace s @ t
        \<and> lock_discipline (nameFromRequest D r delete_APIPath)
             (enclaveFromRequest D (Vault s) r) EnclaveLocker t)
   \<and> (\<exists>t. Trace (snd (describePolicy D r s)) = Trace s @ t
        \<and> lock_discipline (nameFromRequest D r describe_APIPath)
             (enclaveFromRequest D (Vault s) r) EnclaveRLocker t)
   \<and> (\<exists>t. Trace (snd (readPolicy D r s)) = Trace s @ t
        \<and> lock_discipline (nameFromRequest D r read_APIPath)
             (enclaveFromRequest D (Vault s) r) EnclaveRLocker t)
   \<and> (\<exists>t. Trace (snd (listPolicy D r s)) = Trace s @ t
        \<and> lock_discipline (patternFromRequest D r list_APIPath)
             (enclaveFromRequest D (Vault s) r) EnclaveRLocker t)"
  by (intro conjI assignPolicy_trace writePolicy_trace deletePolicy_trace describePolicy_trace
      readPolicy_trace listPolicy_trace)


theorem handlers_follow_lock_discipline_witness:
  "Trace (snd (assignPolicy mem (assign_request ''alice'' ''bob'') (world0 ''admin'' enclave1 100))) =
     [Lock VaultRLocker, Lock (EnclaveLocker 0), Call ''VerifyRequest'', Call ''Admin'',
      Call ''AssignPolicy'', Unlock (EnclaveLocker 0), Unlock VaultRLocker]
   \<and> lock_discipline (Inr ''p1'') (Inr 0) EnclaveLocker
       (Trace (snd (assignPolicy mem (assign_request ''alice'' ''bob'')
                      (world0 ''admin'' enclave1 100))))
   \<and> lock_discipline (Inr ''*'') (Inr 0) EnclaveRLocker
       (Trace (snd (listPolicy mem (list_request ''*'') (world0 ''admin'' enclave1 100))))"
proof -
  let ?s = "world0 ''admin'' enclave1 100"
  let ?r = "assign_request ''alice'' ''bob''"
  let ?l = "list_request ''*''"
  have e: "Trace ?s = []"
    "nameFromRequest mem ?r assign_APIPath = Inr ''p1''"
    "enclaveFromRequest mem (Vault ?s) ?r = Inr 0"
    "patternFromRequest mem ?l list_APIPath = Inr ''*''"
    "enclaveFromRequest mem (Vault ?s) ?l = Inr 0"
    by (simp_all add: mem_defs assign_request_def assign_APIPath_def list_request_def
        list_APIPath_def)
  have t: "Trace (snd (assignPolicy mem ?r ?s)) =
     [Lock VaultRLocker, Lock (EnclaveLocker 0), Call ''VerifyRequest'', Call ''Admin'',
      Call ''AssignPolicy'', Unlock (EnclaveLocker 0), Unlock VaultRLocker]"
    by (simp add: assignPolicy_def assign_locked_def Sync_apply enclave_VerifyRequest_def
        Vault_Admin_def enclave_AssignPolicy_def store_def mem_defs assign_request_def
        assign_APIPath_def)
  show ?thesis
    using handlers_follow_lock_discipline[of mem ?r ?s]
      handlers_follow_lock_discipline[of mem ?l ?s] t
    unfolding e by auto
qed

section \<open>Timeouts and body limits\<close>

lemmas API_defs =
  assignPolicy_API_def describePolicy_API_def readPolicy_API_def writePolicy_API_def
  deletePolicy_API_def listPolicy_API_def edgeDescribePolicy_API_def edgeReadPolicy_API_def
  edgeListPolicy_API_def Second_def KiB_def MiB_def

text \<open>
  Claim C8, as stated, fails: not every policy operation carries a timeout of 15 seconds.
  The edge constructors replace it by the timeout configured for their path (lines 147
  to 151); with 30 seconds configured for the describe path, that is the timeout of the
  edge describe operation.
\<close>

theorem edge_timeout_counterexample:
  "Timeout (edgeDescribePolicy_API slow_edge) = 30 * Second
   \<and> Timeout (edgeDescribePolicy_API slow_edge) \<noteq> 15 * Second"
  by (simp add: API_defs edge_Timeout_def slow_edge_def describe_APIPath_def)

lemma edge_Timeout_cases:
  "(APIConfig config path = None \<longrightarrow> edge_Timeout config path = 15 * Second)
   \<and> (APIConfig config path = Some c \<and> Config_Timeout c \<le> 0 \<longrightarrow>
        edge_Timeout config path = 15 * Second)
   \<and> (APIConfig config path = Some c \<and> 0 < Config_Timeout c \<longrightarrow>
        edge_Timeout config path = Config_Timeout c)"
  by (auto simp: edge_Timeout_def)

text \<open>
  Claim C8, amended. The six enclave operations carry a timeout of 15 seconds. The edge
  describe, read and list operations carry 15 seconds when no timeout, or none that is
  positive, is configured for their path, and the configured timeout otherwise. The
  maximum body is 1 KiB for assign, 1 MiB for write and 0 for describe, read, delete and
  list, the edge operations included. A request whose body is longer than the maximum of
  its operation is rejected without the handler being run, so before its body is decoded
  and with nothing changed; any other request is handed to the handler.
\<close>

theorem timeouts_and_body_limits:
  "Timeout assignPolicy_API = 15 * Second \<and> Timeout describePolicy_API = 15 * Second
   \<and> Timeout readPolicy_API = 15 * Second \<and> Timeout writePolicy_API = 15 * Second
   \<and> Timeout deletePolicy_API = 15 * Second \<and> Timeout listPolicy_API = 15 * Second
   \<and> 15 * Second = 15000000000
   \<and> MaxBody assignPolicy_API = 1024 \<and> MaxBody writePolicy_API = 1048576
   \<and> MaxBody describePolicy_API = 0 \<and> MaxBody readPolicy_API = 0
   \<and> MaxBody deletePolicy_API = 0 \<and> MaxBody listPolicy_API = 0
   \<and> MaxBody (edgeDescribePolicy_API config) = 0 \<and> MaxBody (edgeReadPolicy_API config) = 0
   \<and> MaxBody (edgeListPolicy_API config) = 0
   \<and> (APIConfig config describe_APIPath = None \<longrightarrow>
        Timeout (edgeDescribePolicy_API config) = 15 * Second)
   \<and> (APIConfig config describe_APIPath = Some c \<and> Config_Timeout c \<le> 0 \<longrightarrow>
        Timeout (edgeDescribePolicy_API config) = 15 * Second)
   \<and> (APIConfig config describe_APIPath = Some c \<and> 0 < Config_Timeout c \<longrightarrow>
        Timeout (edgeDescribePolicy_API config) = Config_Timeout c)
   \<and> (APIConfig config read_APIPath = None \<longrightarrow>
        Timeout (edgeReadPolicy_API config) = 15 * Second)
   \<and> (APIConfig config read_APIPath = Some c \<and> Config_Timeout c \<le> 0 \<longrightarrow>
        Timeout (edgeReadPolicy_API config) = 15 * Second)
   \<and> (APIConfig config read_APIPath = Some c \<and> 0 < Config_Timeout c \<longrightarrow>
        Timeout (edgeReadPolicy_API config) = Config_Timeout c)
   \<and> (APIConfig config list_APIPath = None \<longrightarrow>
        Timeout (edgeListPolicy_API config) = 15 * Second)
   \<and> (APIConfig config list_APIPath = Some c \<and> Config_Timeout c \<le> 0 \<longrightarrow>
        Timeout (edgeListPolicy_API config) = 15 * Second)
   \<and> (APIConfig config list_APIPath = Some c \<and> 0 < Config_Timeout c \<longrightarrow>
        Timeout (edgeListPolicy_API config) = Config_Timeout c)
   \<and> (MaxBody api < ContentLength D r \<longrightarrow>
        (\<exists>err. fst (serve D api handler r s) = Some err) \<and> snd (serve D api handler r s) = s)
   \<and> (ContentLength D r \<le> MaxBody api \<longrightarrow> serve D api handler r s = handler r s)"
  using edge_Timeout_cases[of config describe_APIPath c]
    edge_Timeout_cases[of config read_APIPath c]
    edge_Timeout_cases[of config list_APIPath c]
  by (simp add: API_defs serve_def)

theorem timeouts_and_body_limits_witness:
  "Timeout (edgeDescribePolicy_API slow_edge) = 30000000000
   \<and> Timeout (edgeReadPolicy_API slow_edge) = 15000000000
   \<and> Timeout (edgeListPolicy_API (slow_edge
        \<lparr>APIConfig := [''/v1/policy/list/'' \<mapsto> \<lparr>Config_Timeout = 0\<rparr>]\<rparr>)) = 15000000000
   \<and> serve mem writePolicy_API (writePolicy mem)
        ((write_request ''alice'' [''/v1/key/*''] [])\<lparr>Length := 1048577\<rparr>)
        (world0 ''admin'' enclave1 100) =
       (Some (Failure ''request body too large''), world0 ''admin'' enclave1 100)
   \<and> serve mem writePolicy_API (writePolicy mem) (write_request ''alice'' [''/v1/key/*''] [])
        (world0 ''admin'' enclave1 100) =
       writePolicy mem (write_request ''alice'' [''/v1/key/*''] []) (world0 ''admin'' enclave1 100)"
proof -
  let ?zero = "slow_edge\<lparr>APIConfig := [''/v1/policy/list/'' \<mapsto> \<lparr>Config_Timeout = 0\<rparr>]\<rparr>"
  let ?big = "(write_request ''alice'' [''/v1/key/*''] [])\<lparr>Length := 1048577\<rparr>"
  let ?r = "write_request ''alice'' [''/v1/key/*''] []"
  let ?s = "world0 ''admin'' enclave1 100"
  have a: "APIConfig slow_edge describe_APIPath = Some \<lparr>Config_Timeout = 30 * Second\<rparr>
      \<and> 0 < Config_Timeout \<lparr>Config_Timeout = 30 * Second\<rparr>"
    "APIConfig slow_edge read_APIPath = None"
    "Config_Timeout \<lparr>Config_Timeout = 30 * Second\<rparr> = 30000000000"
    by (simp_all add: slow_edge_def describe_APIPath_def read_APIPath_def Second_def)
  have b: "APIConfig ?zero list_APIPath = Some \<lparr>Config_Timeout = 0\<rparr>
      \<and> Config_Timeout \<lparr>Config_Timeout = 0\<rparr> \<le> 0"
    by (simp add: list_APIPath_def)
  have c: "MaxBody writePolicy_API < ContentLength mem ?big"
    "ContentLength mem ?r \<le> MaxBody writePolicy_API"
    by (simp_all add: API_defs mem_def write_request_def)
  note t1 = timeouts_and_body_limits[where config = slow_edge
      and c = "\<lparr>Config_Timeout = 30 * Second\<rparr>" and api = writePolicy_API and D = mem
      and r = ?big and handler = "writePolicy mem" and s = ?s]
  have x: "Timeout (edgeDescribePolicy_API slow_edge) = 30000000000"
    "Timeout (edgeReadPolicy_API slow_edge) = 15000000000"
    using t1 a by simp_all
  have y: "snd (serve mem writePolicy_API (writePolicy mem) ?big ?s) = ?s"
    "\<exists>err. fst (serve mem writePolicy_API (writePolicy mem) ?big ?s) = Some err"
    using t1 c(1) by blast+
  have y': "fst (serve mem writePolicy_API (writePolicy mem) ?big ?s) =
      Some (Failure ''request body too large'')"
    using y(2) c(1) by (simp add: serve_def)
  note t2 = timeouts_and_body_limits[where config = ?zero
      and c = "\<lparr>Config_Timeout = 0\<rparr>" and api = writePolicy_API and D = mem
      and r = ?r and handler = "writePolicy mem" and s = ?s]
  have z: "Timeout (edgeListPolicy_API ?zero) = 15000000000"
    "serve mem writePolicy_API (writePolicy mem) ?r ?s = writePolicy mem ?r ?s"
    using t2 b c(2) by simp_all
  show ?thesis
    using x y(1) y' z by (simp add: prod_eq_iff)
qed

end
